theory Spec2Isabelle
  imports Main "HOL-Library.AList"
begin

section \<open>Values that cross the channel\<close>

text \<open>
  Payloads travel through \<open>postMessage\<close>, so they are structured-clone data: no
  functions. A number is a safe integer, one of magnitude up to 9007199254740992
  (two to the power 53): those a JavaScript number holds exactly and renders in plain
  decimal digits.
\<close>

typedef safe_int = "{i :: int. \<bar>i\<bar> \<le> 9007199254740992}"
  by (rule exI [of _ 0]) simp

definition int_of :: "safe_int \<Rightarrow> int" where
  "int_of n = Rep_safe_int n"

text \<open>
  The number an integer denotes. At the bound adding one no longer changes a JavaScript
  number, so a counter that has been incremented more often than that still reads as
  the bound.
\<close>

definition num :: "int \<Rightarrow> safe_int" where
  "num i = Abs_safe_int (max (- 9007199254740992) (min 9007199254740992 i))"

datatype jsval =
    JUndefined
  | JNull
  | JBool bool
  | JNumber safe_int
  | JStr string
  | JArr "jsval list"
  | JObj "(string \<times> jsval) list"

definition JNum :: "int \<Rightarrow> jsval" where
  "JNum i = JNumber (num i)"

text \<open>
  What can go wrong inside a listener: a TypeError of the language, an exception thrown
  by a function of the model, a value that \<open>postMessage\<close> cannot clone, and a promise
  that is rejected with nobody handling it.
\<close>

datatype error = TypeError | Thrown | DataCloneError | Rejection

text \<open>JavaScript truthiness, as \<open>!x\<close> and \<open>if (x)\<close> read it.\<close>

fun truthy :: "jsval \<Rightarrow> bool" where
  "truthy JUndefined = False"
| "truthy JNull = False"
| "truthy (JBool b) = b"
| "truthy (JNumber n) = (int_of n \<noteq> 0)"
| "truthy (JStr s) = (s \<noteq> [])"
| "truthy (JArr xs) = True"
| "truthy (JObj kvs) = True"

fun js_typeof :: "jsval \<Rightarrow> string" where
  "js_typeof JUndefined = ''undefined''"
| "js_typeof JNull = ''object''"
| "js_typeof (JBool b) = ''boolean''"
| "js_typeof (JNumber n) = ''number''"
| "js_typeof (JStr s) = ''string''"
| "js_typeof (JArr xs) = ''object''"
| "js_typeof (JObj kvs) = ''object''"

text \<open>Reading a property of \<open>undefined\<close> or \<open>null\<close> throws a TypeError.\<close>

fun nullish :: "jsval \<Rightarrow> bool" where
  "nullish JUndefined = True"
| "nullish JNull = True"
| "nullish v = False"

text \<open>
  \<open>v.k\<close> for the field names the program reads from a payload (\<open>postmate\<close>,
  \<open>type\<close>, \<open>uid\<close>, \<open>property\<close>, \<open>data\<close>, \<open>value\<close>, \<open>model\<close>, \<open>name\<close>):
  an object's own entry, \<open>undefined\<close> when the object has none, and \<open>undefined\<close> on
  a primitive or an array (none of these names is inherited from a prototype).
  The callers rule out \<open>undefined\<close> and \<open>null\<close> first, or fail with a TypeError.
\<close>

fun js_get :: "jsval \<Rightarrow> string \<Rightarrow> jsval" where
  "js_get (JObj kvs) k = (case map_of kvs k of Some v \<Rightarrow> v | None \<Rightarrow> JUndefined)"
| "js_get v k = JUndefined"

text \<open>\<open>k in v\<close> on a payload object: an own entry (arrays own only indices and length).\<close>

fun js_in :: "string \<Rightarrow> jsval \<Rightarrow> bool" where
  "js_in k (JObj kvs) = (k \<in> set (map fst kvs))"
| "js_in k v = False"

text \<open>Decimal rendering of numbers, for values used as property names.\<close>

fun nat_to_string :: "nat \<Rightarrow> string" where
  "nat_to_string n =
     (if n < 10 then [''0123456789'' ! n]
      else nat_to_string (n div 10) @ [''0123456789'' ! (n mod 10)])"

declare nat_to_string.simps [simp del]

definition int_to_string :: "int \<Rightarrow> string" where
  "int_to_string i =
     (if i < 0 then CHR ''-'' # nat_to_string (nat (- i)) else nat_to_string (nat i))"

fun join_comma :: "string list \<Rightarrow> string" where
  "join_comma [] = []"
| "join_comma [s] = s"
| "join_comma (s # t # ss) = s @ CHR '','' # join_comma (t # ss)"

text \<open>
  The property name a value denotes in \<open>obj[v]\<close>: JavaScript converts the key to a
  string (a safe integer to its decimal digits; an array joins its elements with commas,
  \<open>null\<close> and \<open>undefined\<close> elements as the empty string).
\<close>

fun to_string :: "jsval \<Rightarrow> string" where
  "to_string JUndefined = ''undefined''"
| "to_string JNull = ''null''"
| "to_string (JBool b) = (if b then ''true'' else ''false'')"
| "to_string (JNumber n) = int_to_string (int_of n)"
| "to_string (JStr s) = s"
| "to_string (JArr xs) =
     join_comma (map (\<lambda>x. case x of JUndefined \<Rightarrow> [] | JNull \<Rightarrow> [] | _ \<Rightarrow> to_string x) xs)"
| "to_string (JObj kvs) = ''[object Object]''"

text \<open>
  The enumerable own entries of a value, as \<open>Object.keys(v).forEach(key => ... v[key])\<close>
  visits them: an object's entries (each key once), an array's and a string's indexed
  elements, nothing for a number or a boolean.
\<close>

fun own_entries :: "jsval \<Rightarrow> (string \<times> jsval) list" where
  "own_entries (JObj kvs) = map (\<lambda>k. (k, js_get (JObj kvs) k)) (remdups (map fst kvs))"
| "own_entries (JArr xs) = zip (map nat_to_string [0..<length xs]) xs"
| "own_entries (JStr s) = zip (map nat_to_string [0..<length s]) (map (\<lambda>c. JStr [c]) s)"
| "own_entries v = []"

section \<open>The sanitizer\<close>

definition messageType :: string where
  "messageType = ''application/x-postmate-v1+json''"

definition maxHandshakeRequests :: nat where
  "maxHandshakeRequests = 5"

text \<open>The own entries of the object literal \<open>messageTypes\<close>.\<close>

definition messageTypes :: "(string \<times> jsval) list" where
  "messageTypes =
     [(''handshake'', JNum 1), (''handshake-reply'', JNum 1), (''call'', JNum 1),
      (''emit'', JNum 1), (''reply'', JNum 1), (''request'', JNum 1)]"

text \<open>
  \<open>messageTypes\<close> and \<open>events\<close> are plain object literals, so a lookup that misses the
  own entries continues in \<open>Object.prototype\<close>, whose members (methods, and the
  \<open>__proto__\<close> accessor that yields the prototype object) are all truthy.
\<close>

definition object_prototype_keys :: "string list" where
  "object_prototype_keys =
     [''constructor'', ''hasOwnProperty'', ''isPrototypeOf'', ''propertyIsEnumerable'',
      ''toLocaleString'', ''toString'', ''valueOf'', ''__proto__'',
      ''__defineGetter__'', ''__defineSetter__'', ''__lookupGetter__'', ''__lookupSetter__'']"

text \<open>Whether \<open>messageTypes[k]\<close> is truthy.\<close>

definition messageTypes_truthy :: "string \<Rightarrow> bool" where
  "messageTypes_truthy k =
     (case map_of messageTypes k of
        Some v \<Rightarrow> truthy v
      | None \<Rightarrow> k \<in> set object_prototype_keys)"

text \<open>A \<open>message\<close> event as a listener receives it.\<close>

record message_event =
  origin :: string
  source :: nat
  data :: jsval

text \<open>
  \<open>sanitize(message, allowedOrigin)\<close>; \<open>allowedOrigin\<close> is \<open>None\<close> when the argument is
  not a string.
\<close>

definition sanitize :: "message_event \<Rightarrow> string option \<Rightarrow> bool" where
  "sanitize message allowedOrigin =
     (if (case allowedOrigin of Some a \<Rightarrow> origin message \<noteq> a | None \<Rightarrow> False) then False
      else if \<not> truthy (data message) then False
      else if js_typeof (data message) = ''object'' \<and> \<not> js_in ''postmate'' (data message)
        then False
      else if js_get (data message) ''type'' \<noteq> JStr messageType then False
      else if \<not> messageTypes_truthy (to_string (js_get (data message) ''postmate''))
        then False
      else True)"

text \<open>
  An exception thrown inside a listener is uncaught: the event loop reports it and goes
  on, with the state as the listener left it (every throw modelled here happens before
  the listener changes anything).
\<close>

definition run_listener :: "('s \<Rightarrow> message_event \<Rightarrow> error + 's) \<Rightarrow> 's \<Rightarrow> message_event \<Rightarrow> 's" where
  "run_listener f s e = (case f s e of Inl err \<Rightarrow> s | Inr s' \<Rightarrow> s')"

text \<open>
  The calls made to a promise's \<open>resolve\<close> and \<open>reject\<close>, in order. The platform's
  promise keeps the first of them.
\<close>

datatype 'h settlement = Resolve 'h | Reject string

datatype 'h promise_state = Pending | Fulfilled 'h | Rejected string

fun settled :: "'h settlement list \<Rightarrow> 'h promise_state" where
  "settled [] = Pending"
| "settled (Resolve h # rest) = Fulfilled h"
| "settled (Reject r # rest) = Rejected r"

text \<open>What \<open>postMessage\<close> hands to the target's listeners: the payload, tagged with the
  sender's origin and window.\<close>

definition deliver :: "string \<Rightarrow> nat \<Rightarrow> jsval \<Rightarrow> message_event" where
  "deliver sender_origin sender_window payload =
     \<lparr>origin = sender_origin, source = sender_window, data = payload\<rparr>"

section \<open>ParentAPI: the host's handle\<close>

text \<open>
  The state of one \<open>ParentAPI\<close> object and of the listeners it has on the host window.
  Callbacks given to \<open>on\<close> are named by numbers; \<open>callbacks_run\<close> logs their
  invocations. \<open>transacts\<close> holds the uid of every \<open>transact\<close> listener that \<open>get\<close> has
  registered and that is still on the window, \<open>resolved\<close> the calls \<open>resolve(e.data.value)\<close>
  made for the promises of \<open>get\<close>, by uid, and \<open>posted\<close> the calls
  \<open>this.child.postMessage(payload, targetOrigin)\<close>.
\<close>

record parent_api =
  childOrigin :: string
  events :: "(string \<times> nat list) list"
  listener_on :: bool
  transacts :: "nat list"
  resolved :: "(nat \<times> jsval) list"
  posted :: "(jsval \<times> string) list"
  callbacks_run :: "(nat \<times> jsval) list"
  frame_attached :: bool

text \<open>The constructor: copies the origin and registers \<open>this.listener\<close>.\<close>

definition ParentAPI :: "string \<Rightarrow> parent_api" where
  "ParentAPI info_childOrigin =
     \<lparr>childOrigin = info_childOrigin, events = [], listener_on = True, transacts = [],
      resolved = [], posted = [], callbacks_run = [], frame_attached = True\<rparr>"

text \<open>
  \<open>this.listener\<close>. The lookup \<open>name in this.events\<close> also finds the members of
  \<open>Object.prototype\<close>, on which \<open>forEach\<close> is not a function.
\<close>

definition listener :: "parent_api \<Rightarrow> message_event \<Rightarrow> error + parent_api" where
  "listener p e =
     (if \<not> sanitize e (Some (childOrigin p)) then Inr p
      else
        let v = js_get (data e) ''value'';
            payload = (if truthy v then v else JObj []);
            d = js_get payload ''data'';
            name = js_get payload ''name''
        in if js_get (data e) ''postmate'' = JStr ''emit'' then
             (case map_of (events p) (to_string name) of
                Some cbs \<Rightarrow> Inr (p\<lparr>callbacks_run := callbacks_run p @ map (\<lambda>cb. (cb, d)) cbs\<rparr>)
              | None \<Rightarrow>
                  if to_string name \<in> set object_prototype_keys then Inl TypeError else Inr p)
           else Inr p)"

text \<open>\<open>generateNewMessageId\<close>: the new value of the module's counter, which it returns.\<close>

definition generateNewMessageId :: "nat \<Rightarrow> nat" where
  "generateNewMessageId messageId = messageId + 1"

text \<open>
  \<open>get(key)\<close>, given the module's counter: the uid drawn (the counter's new value) and
  the handle with the \<open>transact\<close> listener registered and the request posted.
\<close>

definition get :: "nat \<Rightarrow> parent_api \<Rightarrow> string \<Rightarrow> nat \<times> parent_api" where
  "get messageId p key =
     (let uid = generateNewMessageId messageId
      in (uid,
          p\<lparr>transacts := transacts p @ [uid],
            posted := posted p @
              [(JObj [(''postmate'', JStr ''request''), (''type'', JStr messageType),
                      (''key'', JStr key), (''uid'', JNum (int uid))],
                childOrigin p)]\<rparr>))"

text \<open>The listener \<open>transact\<close> that \<open>get\<close> registered for \<open>uid\<close>.\<close>

definition transact :: "nat \<Rightarrow> parent_api \<Rightarrow> message_event \<Rightarrow> error + parent_api" where
  "transact uid p e =
     (if nullish (data e) then Inl TypeError
      else if js_get (data e) ''uid'' = JNum (int uid) \<and> js_get (data e) ''postmate'' = JStr ''reply''
        then Inr (p\<lparr>transacts := removeAll uid (transacts p),
                    resolved := resolved p @ [(uid, js_get (data e) ''value'')]\<rparr>)
      else Inr p)"

definition call :: "parent_api \<Rightarrow> string \<Rightarrow> jsval \<Rightarrow> parent_api" where
  "call p key d =
     p\<lparr>posted := posted p @
         [(JObj [(''postmate'', JStr ''call''), (''type'', JStr messageType),
                 (''key'', JStr key), (''data'', d)],
           childOrigin p)]\<rparr>"

definition on :: "parent_api \<Rightarrow> string \<Rightarrow> nat \<Rightarrow> error + parent_api" where
  "on p eventName callback =
     (case map_of (events p) eventName of
        Some cbs \<Rightarrow> Inr (p\<lparr>events := AList.update eventName (cbs @ [callback]) (events p)\<rparr>)
      | None \<Rightarrow>
          if eventName \<in> set object_prototype_keys then Inl TypeError
          else Inr (p\<lparr>events := events p @ [(eventName, [callback])]\<rparr>))"

text \<open>
  \<open>destroy()\<close>: removes \<open>this.listener\<close> from the window and the frame from its parent
  node. On a frame already removed \<open>this.frame.parentNode\<close> is \<open>null\<close> and the second
  statement throws (the listener is off since the first call).
\<close>

definition destroy :: "parent_api \<Rightarrow> error + parent_api" where
  "destroy p =
     (if frame_attached p then Inr (p\<lparr>listener_on := False, frame_attached := False\<rparr>)
      else Inl TypeError)"

text \<open>
  A \<open>message\<close> event on the host window reaches every listener the handle has on it, in
  the order of registration: \<open>this.listener\<close>, then the \<open>transact\<close> of each pending \<open>get\<close>.
\<close>

definition parent_receive :: "parent_api \<Rightarrow> message_event \<Rightarrow> parent_api" where
  "parent_receive p e =
     foldl (\<lambda>q uid. run_listener (transact uid) q e)
       (if listener_on p then run_listener listener p e else p)
       (transacts p)"

section \<open>The child's model object\<close>

text \<open>
  What \<open>postMessage\<close> makes of a value: a clone, or a DataCloneError (a function, a
  promise, an object that holds one).
\<close>

datatype payload = Cloneable jsval | Uncloneable

text \<open>
  What reading an entry, or calling it, produces, by what \<open>Promise.resolve\<close> makes of
  it: a value that is no promise, or a promise (or thenable) that is fulfilled with a
  value, is rejected, or never settles.
\<close>

datatype produced = Direct payload | Fulfils payload | Rejects | Never

text \<open>
  A property of the model object: a plain value (or promise), a function (the result of
  calling it with the given arguments, \<open>Inl\<close> when it throws), or the accessor
  \<open>__proto__\<close> of \<open>Object.prototype\<close>, which reads as the object's prototype and whose
  setter replaces it.
\<close>

datatype entry =
    Plain produced
  | Callable "jsval list \<Rightarrow> error + produced"
  | ProtoAccessor produced

text \<open>
  The built-in prototypes of the child's realm, as far as a lookup on the model can reach
  them: what each method of \<open>Object.prototype\<close> does when the program calls it on the
  model, and the members of \<open>Array.prototype\<close>. They are the platform's, so parameters
  here.
\<close>

record realm =
  object_method :: "string \<Rightarrow> jsval list \<Rightarrow> error + produced"
  array_members :: "(string \<times> entry) list"

definition object_prototype_methods :: "string list" where
  "object_prototype_methods = removeAll ''__proto__'' object_prototype_keys"

text \<open>
  What a lookup finds in \<open>Object.prototype\<close> for an object whose prototype reads as
  \<open>p\<close>: the accessor and the methods.
\<close>

definition object_chain :: "realm \<Rightarrow> produced \<Rightarrow> (string \<times> entry) list" where
  "object_chain r p =
     (''__proto__'', ProtoAccessor p) #
     map (\<lambda>k. (k, Callable (object_method r k))) object_prototype_methods"

text \<open>
  The model object: its own properties, and what a lookup that misses them finds along
  the prototype chain (the first match counts). The object is extensible and its own
  properties are writable data properties, as those of an object literal are.
\<close>

record model_object =
  own :: "(string \<times> entry) list"
  inherited :: "(string \<times> entry) list"

text \<open>
  An object literal with the given own properties: its prototype is \<open>Object.prototype\<close>,
  which \<open>postMessage\<close> clones to the empty object.
\<close>

definition plain_object :: "realm \<Rightarrow> (string \<times> entry) list \<Rightarrow> model_object" where
  "plain_object r props =
     \<lparr>own = props, inherited = object_chain r (Direct (Cloneable (JObj [])))\<rparr>"

text \<open>\<open>model[k]\<close> and \<open>k in model\<close>: own properties first, then the chain.\<close>

definition lookup :: "model_object \<Rightarrow> string \<Rightarrow> entry option" where
  "lookup m k = (case map_of (own m) k of Some x \<Rightarrow> Some x | None \<Rightarrow> map_of (inherited m) k)"

text \<open>The own properties of a received value, as a lookup through it finds them.\<close>

definition plain_entries :: "jsval \<Rightarrow> (string \<times> entry) list" where
  "plain_entries v = map (\<lambda>kv. (fst kv, Plain (Direct (Cloneable (snd kv))))) (own_entries v)"

text \<open>
  The setter of \<open>__proto__\<close>: an object or an array becomes the prototype (its own
  properties, then what it inherits), \<open>null\<close> leaves the object without a prototype, and
  any other value is ignored.
\<close>

fun set_prototype :: "realm \<Rightarrow> model_object \<Rightarrow> jsval \<Rightarrow> model_object" where
  "set_prototype r m (JObj kvs) =
     m\<lparr>inherited := plain_entries (JObj kvs) @ object_chain r (Direct (Cloneable (JObj kvs)))\<rparr>"
| "set_prototype r m (JArr xs) =
     m\<lparr>inherited := plain_entries (JArr xs) @
                      [(''length'', Plain (Direct (Cloneable (JNum (int (length xs))))))] @
                      array_members r @
                      object_chain r (Direct (Cloneable (JArr xs)))\<rparr>"
| "set_prototype r m JNull = m\<lparr>inherited := []\<rparr>"
| "set_prototype r m v = m"

text \<open>
  The assignment \<open>model[key] = v\<close> of a received value: an own property is overwritten;
  otherwise, when the lookup of \<open>key\<close> ends at the accessor \<open>__proto__\<close>, its setter runs;
  otherwise the object gets a new own property.
\<close>

definition assign :: "realm \<Rightarrow> model_object \<Rightarrow> string \<Rightarrow> jsval \<Rightarrow> model_object" where
  "assign r m key v =
     (case map_of (own m) key of
        Some x \<Rightarrow> m\<lparr>own := AList.update key (Plain (Direct (Cloneable v))) (own m)\<rparr>
      | None \<Rightarrow>
          (case map_of (inherited m) key of
             Some (ProtoAccessor p) \<Rightarrow> set_prototype r m v
           | _ \<Rightarrow> m\<lparr>own := AList.update key (Plain (Direct (Cloneable v))) (own m)\<rparr>))"

section \<open>ChildAPI: the child's handle\<close>

text \<open>
  The state of one \<open>ChildAPI\<close> object: \<open>child_posted\<close> holds the calls
  \<open>postMessage(payload, targetOrigin)\<close> with the window they went to, \<open>invoked\<close> the calls
  made to the model's functions with their arguments, \<open>awaiting\<close> the replies whose
  value is a promise that has not settled yet (source window, property, uid, how the
  promise will settle, origin), and \<open>uncaught\<close> the exceptions that escaped the
  listener and the rejections of the promise that \<open>then\<close> returned, which nothing handles.
\<close>

record child_api =
  model :: model_object
  parentOrigin :: string
  parent :: nat
  child_posted :: "(nat \<times> jsval \<times> string) list"
  invoked :: "(string \<times> jsval list) list"
  awaiting :: "(nat \<times> jsval \<times> jsval \<times> produced \<times> string) list"
  uncaught :: "error list"

definition ChildAPI :: "model_object \<Rightarrow> nat \<Rightarrow> string \<Rightarrow> child_api" where
  "ChildAPI info_model info_parent info_parentOrigin =
     \<lparr>model = info_model, parentOrigin = info_parentOrigin, parent = info_parent,
      child_posted = [], invoked = [], awaiting = [], uncaught = []\<rparr>"

text \<open>
  \<open>resolveValue(model, property)\<close>: \<open>Inl\<close> when the model's function throws, otherwise
  how the promise \<open>Postmate.Promise.resolve(unwrappedContext)\<close> settles.
\<close>

definition resolveValue :: "model_object \<Rightarrow> jsval \<Rightarrow> error + produced" where
  "resolveValue m property =
     (case lookup m (to_string property) of
        Some (Callable f) \<Rightarrow> f []
      | Some (Plain v) \<Rightarrow> Inr v
      | Some (ProtoAccessor v) \<Rightarrow> Inr v
      | None \<Rightarrow> Inr (Direct (Cloneable JUndefined)))"

text \<open>The calls \<open>resolveValue\<close> makes to the model's functions.\<close>

definition resolveValue_calls :: "model_object \<Rightarrow> jsval \<Rightarrow> (string \<times> jsval list) list" where
  "resolveValue_calls m property =
     (case lookup m (to_string property) of
        Some (Callable f) \<Rightarrow> [(to_string property, [])]
      | _ \<Rightarrow> [])"

text \<open>
  The callback given to \<open>then\<close>, run with the value the promise is fulfilled with: it
  posts the reply to \<open>e.source\<close> for \<open>e.origin\<close>, unless the value cannot be cloned.
\<close>

definition then_reply :: "child_api \<Rightarrow> nat \<Rightarrow> jsval \<Rightarrow> jsval \<Rightarrow> payload \<Rightarrow> string \<Rightarrow> child_api" where
  "then_reply c e_source property uid p e_origin =
     (case p of
        Cloneable v \<Rightarrow>
          c\<lparr>child_posted := child_posted c @
              [(e_source,
                JObj [(''property'', property), (''postmate'', JStr ''reply''),
                      (''type'', JStr messageType), (''uid'', uid), (''value'', v)],
                e_origin)]\<rparr>
      | Uncloneable \<Rightarrow> c\<lparr>uncaught := uncaught c @ [DataCloneError]\<rparr>)"

text \<open>
  The \<open>message\<close> listener the constructor registers on the child window. A value that is
  no promise reaches the callback before any other event is handled; a promise makes
  the reply wait.
\<close>

definition child_listener :: "child_api \<Rightarrow> message_event \<Rightarrow> child_api" where
  "child_listener c e =
     (if \<not> sanitize e (Some (parentOrigin c)) then c
      else
        let property = js_get (data e) ''property'';
            uid = js_get (data e) ''uid'';
            d = js_get (data e) ''data''
        in if js_get (data e) ''postmate'' = JStr ''call'' then
             (case lookup (model c) (to_string property) of
                Some (Callable f) \<Rightarrow>
                  (case f [d] of
                     Inl err \<Rightarrow>
                       c\<lparr>invoked := invoked c @ [(to_string property, [d])],
                         uncaught := uncaught c @ [err]\<rparr>
                   | Inr r \<Rightarrow> c\<lparr>invoked := invoked c @ [(to_string property, [d])]\<rparr>)
              | _ \<Rightarrow> c)
           else
             (case resolveValue (model c) property of
                Inl err \<Rightarrow>
                  c\<lparr>invoked := invoked c @ resolveValue_calls (model c) property,
                    uncaught := uncaught c @ [err]\<rparr>
              | Inr (Direct p) \<Rightarrow>
                  then_reply (c\<lparr>invoked := invoked c @ resolveValue_calls (model c) property\<rparr>)
                    (source e) property uid p (origin e)
              | Inr r \<Rightarrow>
                  c\<lparr>invoked := invoked c @ resolveValue_calls (model c) property,
                    awaiting := awaiting c @ [(source e, property, uid, r, origin e)]\<rparr>))"


definition emit :: "child_api \<Rightarrow> string \<Rightarrow> jsval \<Rightarrow> child_api" where
  "emit c name d =
     c\<lparr>child_posted := child_posted c @
         [(parent c,
           JObj [(''postmate'', JStr ''emit''), (''type'', JStr messageType),
                 (''value'', JObj [(''name'', JStr name), (''data'', d)])],
           parentOrigin c)]\<rparr>"

section \<open>Postmate.sendHandshake: the host's side of the handshake\<close>

text \<open>
  The variables \<open>sendHandshake\<close> closes over and the fields it writes:
  \<open>target_origin\<close> is the constant \<open>childOrigin = resolveOrigin(url)\<close> (computed by the
  DOM, so a parameter here), \<open>this_childOrigin\<close> the field \<open>this.childOrigin\<close> (unset
  until a reply is accepted), \<open>this_model\<close> the field \<open>this.model\<close>, \<open>responseInterval\<close>
  the variable of that name (the id that \<open>setInterval\<close> returned last, unset before the
  first load), \<open>reply_on\<close> whether the listener \<open>reply\<close> is on the window, \<open>settlements\<close>
  the calls to the promise's \<open>resolve\<close> and \<open>reject\<close>, and \<open>handshakes\<close> the calls
  \<open>this.child.postMessage(payload, childOrigin)\<close> with the time of each.
  The platform's side: \<open>intervals\<close> holds the interval timers that are running, each with
  its id and the time its next firing is due, \<open>interval_ids\<close> the number of timers created
  so far (the next id), and \<open>clock\<close> the time of the latest load event or timer firing.
\<close>

record postmate =
  this_model :: jsval
  this_childOrigin :: "string option"
  target_origin :: string
  attempt :: nat
  responseInterval :: "nat option"
  reply_on :: bool
  settlements :: "parent_api settlement list"
  handshakes :: "(nat \<times> jsval \<times> string) list"
  intervals :: "(nat \<times> nat) list"
  interval_ids :: nat
  clock :: nat

text \<open>
  The state when the promise's executor has run: \<open>reply\<close> listens, the frame has not
  loaded, nothing is sent.
\<close>

definition sendHandshake :: "jsval \<Rightarrow> string \<Rightarrow> postmate" where
  "sendHandshake options_model resolved_origin =
     \<lparr>this_model = options_model, this_childOrigin = None, target_origin = resolved_origin,
      attempt = 0, responseInterval = None, reply_on = True, settlements = [],
      handshakes = [], intervals = [], interval_ids = 0, clock = 0\<rparr>"

text \<open>\<open>clearInterval(id)\<close>: stops the timer with that id; no effect for an unset id.\<close>

definition clearInterval :: "nat option \<Rightarrow> (nat \<times> nat) list \<Rightarrow> (nat \<times> nat) list" where
  "clearInterval r ts = (case r of None \<Rightarrow> ts | Some i \<Rightarrow> filter (\<lambda>t. fst t \<noteq> i) ts)"

definition reply :: "postmate \<Rightarrow> message_event \<Rightarrow> postmate" where
  "reply s e =
     (if \<not> sanitize e (Some (target_origin s)) then s
      else if js_get (data e) ''postmate'' = JStr ''handshake-reply'' then
        s\<lparr>intervals := clearInterval (responseInterval s) (intervals s),
          reply_on := False, this_childOrigin := Some (origin e),
          settlements := settlements s @ [Resolve (ParentAPI (origin e))]\<rparr>
      else s\<lparr>settlements := settlements s @ [Reject ''Failed handshake'']\<rparr>)"

definition doSend :: "postmate \<Rightarrow> postmate" where
  "doSend s =
     (let a = attempt s + 1
      in if a > maxHandshakeRequests then
           s\<lparr>attempt := a, intervals := clearInterval (responseInterval s) (intervals s),
             settlements := settlements s @ [Reject ''Handshake Timeout Reached'']\<rparr>
         else
           s\<lparr>attempt := a,
             handshakes := handshakes s @
               [(clock s,
                 JObj [(''postmate'', JStr ''handshake''), (''type'', JStr messageType),
                       (''model'', this_model s)],
                 target_origin s)]\<rparr>)"

text \<open>
  \<open>loaded\<close>, the listener of the frame's load event: the first send, then
  \<open>responseInterval = setInterval(doSend, 500)\<close>.
\<close>

definition loaded :: "postmate \<Rightarrow> postmate" where
  "loaded s =
     (let s' = doSend s
      in s'\<lparr>responseInterval := Some (interval_ids s'),
            intervals := intervals s' @ [(interval_ids s', clock s' + 500)],
            interval_ids := interval_ids s' + 1\<rparr>)"

text \<open>
  What happens on the host once \<open>sendHandshake\<close> has returned: the frame fires a load
  event at the given time (it does so every time it loads a document, and \<open>loaded\<close>
  stays registered), the interval timer with the given id fires (at the time it is due,
  500 units after it was set or last fired; a cleared timer does not fire), or a
  \<open>message\<close> event arrives (and reaches \<open>reply\<close> while it is registered).
\<close>

datatype event = Load nat | Tick nat | Message message_event

fun step :: "postmate \<Rightarrow> event \<Rightarrow> postmate" where
  "step s (Load t) = loaded (s\<lparr>clock := t\<rparr>)"
| "step s (Tick i) =
     (case map_of (intervals s) i of
        None \<Rightarrow> s
      | Some due \<Rightarrow>
          doSend (s\<lparr>clock := due, intervals := AList.update i (due + 500) (intervals s)\<rparr>))"
| "step s (Message e) = (if reply_on s then reply s e else s)"

definition run :: "postmate \<Rightarrow> event list \<Rightarrow> postmate" where
  "run s evs = foldl step s evs"

text \<open>The state of the handshake after the events \<open>evs\<close>.\<close>

definition handshake_run :: "jsval \<Rightarrow> string \<Rightarrow> event list \<Rightarrow> postmate" where
  "handshake_run m target evs = run (sendHandshake m target) evs"

text \<open>How often the timer \<open>i\<close> is scheduled to fire in a list of events.\<close>

fun ticks :: "nat \<Rightarrow> event list \<Rightarrow> nat" where
  "ticks i [] = 0"
| "ticks i (Tick j # evs) = (if i = j then Suc (ticks i evs) else ticks i evs)"
| "ticks i (Load t # evs) = ticks i evs"
| "ticks i (Message e # evs) = ticks i evs"

text \<open>The frame fires no load event.\<close>

fun no_load :: "event list \<Rightarrow> bool" where
  "no_load [] = True"
| "no_load (Load t # evs) = False"
| "no_load (Tick i # evs) = no_load evs"
| "no_load (Message e # evs) = no_load evs"

text \<open>
  A valid HandshakeReply: an envelope that \<open>reply\<close> accepts, that is one that passes
  \<open>sanitize\<close> against the precomputed origin and whose kind is \<open>handshake-reply\<close>.
\<close>

definition valid_reply :: "string \<Rightarrow> message_event \<Rightarrow> bool" where
  "valid_reply target e =
     (sanitize e (Some target) \<and> js_get (data e) ''postmate'' = JStr ''handshake-reply'')"

fun no_valid_reply :: "string \<Rightarrow> event list \<Rightarrow> bool" where
  "no_valid_reply target [] = True"
| "no_valid_reply target (Message e # evs) =
     (\<not> valid_reply target e \<and> no_valid_reply target evs)"
| "no_valid_reply target (ev # evs) = no_valid_reply target evs"

text \<open>No envelope among the events passes \<open>sanitize\<close> against the precomputed origin.\<close>

fun no_sanitized :: "string \<Rightarrow> event list \<Rightarrow> bool" where
  "no_sanitized target [] = True"
| "no_sanitized target (Message e # evs) =
     (\<not> sanitize e (Some target) \<and> no_sanitized target evs)"
| "no_sanitized target (ev # evs) = no_sanitized target evs"

text \<open>The payload every handshake attempt carries.\<close>

definition handshake_envelope :: "jsval \<Rightarrow> jsval" where
  "handshake_envelope m =
     JObj [(''postmate'', JStr ''handshake''), (''type'', JStr messageType), (''model'', m)]"

text \<open>How often \<open>reject\<close> was called with the timeout error, and how often \<open>resolve\<close>.\<close>

definition timeout_calls :: "'h settlement list \<Rightarrow> nat" where
  "timeout_calls xs = length (filter (\<lambda>x. x = Reject ''Handshake Timeout Reached'') xs)"

definition resolve_calls :: "'h settlement list \<Rightarrow> nat" where
  "resolve_calls xs =
     length (filter (\<lambda>x. case x of Resolve h \<Rightarrow> True | Reject r \<Rightarrow> False) xs)"

section \<open>Postmate.Model: the child's side of the handshake\<close>

text \<open>
  The fields of the \<open>Model\<close> object and what \<open>sendHandshakeReply\<close> closes over:
  \<open>this_entries\<close> is the field \<open>this.model\<close>, \<open>shake_on\<close> whether the listener \<open>shake\<close> is
  on the child window, \<open>model_settlements\<close> the calls to the promise's \<open>resolve\<close> and
  \<open>reject\<close>, \<open>model_posted\<close> the calls \<open>e.source.postMessage(payload, e.origin)\<close>, and
  \<open>child_realm\<close> the built-in prototypes of the child window.
\<close>

record model_state =
  child_realm :: realm
  this_entries :: model_object
  this_parent :: nat
  this_parentOrigin :: "string option"
  shake_on :: bool
  model_settlements :: "child_api settlement list"
  model_posted :: "(nat \<times> jsval \<times> string) list"

definition sendHandshakeReply :: "realm \<Rightarrow> model_object \<Rightarrow> nat \<Rightarrow> model_state" where
  "sendHandshakeReply r m parent_window =
     \<lparr>child_realm = r, this_entries = m, this_parent = parent_window, this_parentOrigin = None,
      shake_on = True, model_settlements = [], model_posted = []\<rparr>"

text \<open>
  The loop \<open>Object.keys(defaults).forEach(key => { this.model[key] = defaults[key] })\<close>,
  guarded by \<open>if (defaults)\<close>.
\<close>

definition extend_model :: "realm \<Rightarrow> model_object \<Rightarrow> jsval \<Rightarrow> model_object" where
  "extend_model r m defaults =
     (if truthy defaults
      then foldl (\<lambda>acc kv. assign r acc (fst kv) (snd kv)) m (own_entries defaults)
      else m)"

definition shake :: "model_state \<Rightarrow> message_event \<Rightarrow> error + model_state" where
  "shake s e =
     (if nullish (data e) then Inl TypeError
      else if \<not> truthy (js_get (data e) ''postmate'') then Inr s
      else if js_get (data e) ''postmate'' = JStr ''handshake'' then
        (let m = extend_model (child_realm s) (this_entries s) (js_get (data e) ''model'')
         in Inr (s\<lparr>shake_on := False,
                   model_posted := model_posted s @
                     [(source e,
                       JObj [(''postmate'', JStr ''handshake-reply''), (''type'', JStr messageType)],
                       origin e)],
                   this_parentOrigin := Some (origin e),
                   this_entries := m,
                   model_settlements := model_settlements s @
                     [Resolve (ChildAPI m (this_parent s) (origin e))]\<rparr>))
      else Inr (s\<lparr>model_settlements := model_settlements s @ [Reject ''Handshake Reply Failed'']\<rparr>))"

text \<open>A \<open>message\<close> event on the child window reaches \<open>shake\<close> while it is registered.\<close>

definition model_receive :: "model_state \<Rightarrow> message_event \<Rightarrow> model_state" where
  "model_receive s e = (if shake_on s then run_listener shake s e else s)"

section \<open>Numbers\<close>

lemma int_of_num: "int_of (num i) = max (- 9007199254740992) (min 9007199254740992 i)"
  by (simp add: int_of_def num_def Abs_safe_int_inverse)

lemma int_of_num_safe [simp]: "\<bar>i\<bar> \<le> 9007199254740992 \<Longrightarrow> int_of (num i) = i"
  by (simp add: int_of_num)

lemma JNum_eq [simp]:
  "\<bar>i\<bar> \<le> 9007199254740992 \<Longrightarrow> \<bar>j\<bar> \<le> 9007199254740992 \<Longrightarrow> (JNum i = JNum j) = (i = j)"
  unfolding JNum_def by (metis int_of_num_safe jsval.inject(2))

lemma JNum_distinct [simp]:
  "JNum i \<noteq> JUndefined" "JNum i \<noteq> JNull" "JNum i \<noteq> JBool b" "JNum i \<noteq> JStr s"
  "JNum i \<noteq> JArr xs" "JNum i \<noteq> JObj kvs"
  "JUndefined \<noteq> JNum i" "JNull \<noteq> JNum i" "JBool b \<noteq> JNum i" "JStr s \<noteq> JNum i"
  "JArr xs \<noteq> JNum i" "JObj kvs \<noteq> JNum i"
  by (simp_all add: JNum_def)

lemma JNum_simps [simp]:
  "truthy (JNum i) = (i \<noteq> 0)"
  "js_typeof (JNum i) = ''number''"
  "nullish (JNum i) = False"
  "js_get (JNum i) k = JUndefined"
  "js_in k (JNum i) = False"
  "own_entries (JNum i) = []"
  by (auto simp: JNum_def int_of_num)

lemma to_string_JNum [simp]:
  "\<bar>i\<bar> \<le> 9007199254740992 \<Longrightarrow> to_string (JNum i) = int_to_string i"
  by (simp add: JNum_def)

section \<open>Properties of the sanitizer\<close>

lemmas eval_defs = sanitize_def messageTypes_truthy_def messageTypes_def
  object_prototype_keys_def messageType_def deliver_def

lemma sanitize_data_obj:
  assumes "sanitize e a"
  shows "\<exists>kvs. data e = JObj kvs"
proof (cases "data e")
  case (JObj kvs)
  then show ?thesis by simp
qed (use assms in \<open>auto simp: sanitize_def split: if_splits\<close>)

lemma sanitize_origin: "sanitize e (Some a) \<Longrightarrow> origin e = a"
  by (auto simp: sanitize_def split: if_splits)

lemma sanitize_rejects_origin_mismatch: "origin e \<noteq> a \<Longrightarrow> \<not> sanitize e (Some a)"
  by (simp add: sanitize_def)

lemma sanitize_rejects_missing_discriminant: "\<not> js_in ''postmate'' (data e) \<Longrightarrow> \<not> sanitize e a"
  by (cases "data e") (simp_all add: sanitize_def)

lemma sanitize_rejects_wrong_type:
  "js_get (data e) ''type'' \<noteq> JStr messageType \<Longrightarrow> \<not> sanitize e a"
  by (simp add: sanitize_def)

lemma messageTypes_truthy_iff:
  "messageTypes_truthy k =
     (k \<in> set (map fst messageTypes) \<or> k \<in> set object_prototype_keys)"
  by (simp add: messageTypes_truthy_def messageTypes_def)

lemma sanitize_iff:
  "sanitize e a =
     ((case a of Some x \<Rightarrow> origin e = x | None \<Rightarrow> True)
      \<and> js_in ''postmate'' (data e)
      \<and> js_get (data e) ''type'' = JStr messageType
      \<and> messageTypes_truthy (to_string (js_get (data e) ''postmate'')))"
  by (cases "data e") (auto simp: sanitize_def split: option.splits)

text \<open>
  C5. The sanitizer is meant to accept a payload only when its kind is one of the six
  recognized values. The table lookup \<open>messageTypes[message.data.postmate]\<close> also finds
  what the table inherits from \<open>Object.prototype\<close>: an envelope from the allowed origin,
  with the protocol's type marker and the kind \<open>toString\<close>, none of the six, is accepted.
\<close>

theorem sanitize_accepts_inherited_kind:
  "sanitize \<lparr>origin = ''https://child.example'', source = 1,
       data = JObj [(''postmate'', JStr ''toString''), (''type'', JStr messageType)]\<rparr>
     (Some ''https://child.example'')
   \<and> ''toString'' \<notin> set (map fst messageTypes)"
  by (simp add: eval_defs)

section \<open>Properties of the host's handle\<close>

lemma listener_drops_unsanitized:
  "\<not> sanitize e (Some (childOrigin p)) \<Longrightarrow> listener p e = Inr p"
  by (simp add: listener_def)

lemma get_request_omits_property:
  "js_get (fst (last (posted (snd (get messageId p key))))) ''property'' = JUndefined
   \<and> js_get (fst (last (posted (snd (get messageId p key))))) ''key'' = JStr key"
  by (simp add: get_def Let_def)

lemma destroy_removes_listener:
  "destroy p = Inr q \<Longrightarrow> \<not> listener_on q \<and> transacts q = transacts p"
  by (auto simp: destroy_def split: if_splits)

text \<open>
  C2. Every listener is meant to act only on envelopes that pass the sanitizer. The
  listener \<open>transact\<close> of a pending \<open>get\<close> never calls it: an envelope from a foreign
  origin, without the protocol's type marker, that carries the pending uid and the kind
  \<open>reply\<close> fails \<open>sanitize\<close> against the trusted child origin and still resolves the
  \<open>get\<close> with its value. Nor does the child's \<open>shake\<close>: an envelope without the type
  marker is honoured as the handshake and its origin becomes the trusted host origin.
\<close>

theorem unsanitized_reply_resolves_get:
  "\<not> sanitize \<lparr>origin = ''https://evil.example'', source = 7,
         data = JObj [(''postmate'', JStr ''reply''), (''uid'', JNum 1),
                      (''value'', JStr ''forged'')]\<rparr>
       (Some (childOrigin (snd (get 0 (ParentAPI ''https://child.example'') ''x''))))
   \<and> resolved (parent_receive (snd (get 0 (ParentAPI ''https://child.example'') ''x''))
        \<lparr>origin = ''https://evil.example'', source = 7,
         data = JObj [(''postmate'', JStr ''reply''), (''uid'', JNum 1),
                      (''value'', JStr ''forged'')]\<rparr>)
     = [(1, JStr ''forged'')]
   \<and> \<not> sanitize \<lparr>origin = ''https://evil.example'', source = 7,
         data = JObj [(''postmate'', JStr ''handshake''),
                      (''model'', JObj [(''greeting'', JStr ''forged'')])]\<rparr> None
   \<and> this_parentOrigin (model_receive (sendHandshakeReply r (plain_object r []) 0)
        \<lparr>origin = ''https://evil.example'', source = 7,
         data = JObj [(''postmate'', JStr ''handshake''),
                      (''model'', JObj [(''greeting'', JStr ''forged'')])]\<rparr>)
     = Some ''https://evil.example''"
  by (simp add: get_def generateNewMessageId_def ParentAPI_def
      parent_receive_def run_listener_def listener_def transact_def eval_defs Let_def
      model_receive_def shake_def sendHandshakeReply_def)

text \<open>
  C9. After \<open>destroy()\<close> the handle is meant to process no further envelope. \<open>destroy\<close>
  removes \<open>this.listener\<close> only: the \<open>transact\<close> listener of a pending \<open>get\<close> stays on the
  window, and a reply that arrives after the teardown still resolves that \<open>get\<close>.
\<close>

theorem destroy_leaves_transact:
  "(case destroy (snd (get 0 (ParentAPI ''https://child.example'') ''x'')) of
      Inl err \<Rightarrow> False
    | Inr h \<Rightarrow>
        \<not> listener_on h \<and> transacts h = [1]
        \<and> resolved (parent_receive h
             (deliver ''https://child.example'' 1
                (JObj [(''postmate'', JStr ''reply''), (''type'', JStr messageType),
                       (''uid'', JNum 1), (''value'', JNum 7)])))
          = [(1, JNum 7)])"
  by (simp add: destroy_def get_def generateNewMessageId_def ParentAPI_def
      parent_receive_def run_listener_def transact_def deliver_def Let_def)

section \<open>Properties of the child's handle\<close>

lemma child_listener_drops_unsanitized:
  "\<not> sanitize e (Some (parentOrigin c)) \<Longrightarrow> child_listener c e = c"
  by (simp add: child_listener_def)

lemma map_of_methods:
  "map_of (map (\<lambda>k. (k, f k)) ks) k = (if k \<in> set ks then Some (f k) else None)"
  by (induction ks) simp_all

lemma lookup_plain_object:
  "lookup (plain_object r props) k =
     (case map_of props k of
        Some x \<Rightarrow> Some x
      | None \<Rightarrow>
          if k = ''__proto__'' then Some (ProtoAccessor (Direct (Cloneable (JObj []))))
          else if k \<in> set object_prototype_methods then Some (Callable (object_method r k))
          else None)"
  by (simp add: lookup_def plain_object_def object_chain_def map_of_methods split: option.split)

lemma undefined_not_inherited: "''undefined'' \<notin> set object_prototype_methods"
  by (simp add: object_prototype_methods_def object_prototype_keys_def)

lemma resolveValue_cases:
  "resolveValue m property =
     (case lookup m (to_string property) of
        None \<Rightarrow> Inr (Direct (Cloneable JUndefined))
      | Some (Plain p) \<Rightarrow> Inr p
      | Some (Callable f) \<Rightarrow> f []
      | Some (ProtoAccessor p) \<Rightarrow> Inr p)"
  by (simp add: resolveValue_def split: option.split entry.split)

lemma resolveValue_entry:
  "resolveValue (plain_object r [(k, Plain (Direct (Cloneable v)))]) (JStr k) =
     Inr (Direct (Cloneable v))"
  "resolveValue (plain_object r [(k, Callable (\<lambda>args. Inr (Direct (Cloneable v))))]) (JStr k) =
     Inr (Direct (Cloneable v))"
  "resolveValue (plain_object r [(k, Callable (\<lambda>args. Inr (Fulfils (Cloneable v))))]) (JStr k) =
     Inr (Fulfils (Cloneable v))"
  by (simp_all add: resolveValue_def lookup_plain_object)

text \<open>
  What the child answers to the request that \<open>get\<close> posts, and what it does with the
  envelope that \<open>call\<close> posts: neither carries a field \<open>property\<close>, so the name asked
  for does not reach the lookup.
\<close>

lemma get_request_answer:
  assumes "parentOrigin c = po" and "lookup (model c) ''undefined'' = None"
  shows "child_listener c (deliver po w (fst (last (posted (snd (get messageId p key))))))
       = c\<lparr>child_posted := child_posted c @
           [(w, JObj [(''property'', JUndefined), (''postmate'', JStr ''reply''),
                      (''type'', JStr messageType), (''uid'', JNum (int (messageId + 1))),
                      (''value'', JUndefined)], po)]\<rparr>"
  using assms
  by (simp add: get_def generateNewMessageId_def child_listener_def eval_defs Let_def
      resolveValue_def resolveValue_calls_def then_reply_def)

lemma call_request_ignored:
  assumes "parentOrigin c = po" and "lookup (model c) ''undefined'' = None"
  shows "child_listener c (deliver po w (fst (last (posted (call p key d))))) = c"
  using assms
  by (simp add: call_def child_listener_def eval_defs Let_def)

text \<open>An event the child emits reaches the callback registered for its name, once.\<close>

lemma on_then_emit:
  "(case on (ParentAPI ''https://child.example'') ''ping'' 1 of
      Inl err \<Rightarrow> []
    | Inr h \<Rightarrow>
        callbacks_run (parent_receive h
          (deliver ''https://child.example'' 1
             (fst (snd (last (child_posted
                (emit (ChildAPI (plain_object r []) 0 ''https://host.example'') ''ping''
                   (JNum 7)))))))))
   = [(1, JNum 7)]"
  by (simp add: on_def ParentAPI_def emit_def ChildAPI_def parent_receive_def run_listener_def
      listener_def eval_defs Let_def)

lemmas child_defs = ChildAPI_def child_listener_def resolveValue_def resolveValue_calls_def
  then_reply_def lookup_plain_object undefined_not_inherited

text \<open>
  C1. \<open>get("x")\<close> on a child whose model has \<open>x = 42\<close> is meant to resolve with \<open>42\<close>.
  \<open>get\<close> sends the name in the field \<open>key\<close>; the child reads the field \<open>property\<close>, which
  the request does not have, so it looks up the entry named \<open>undefined\<close> and answers
  \<open>undefined\<close>. The same happens when \<open>x\<close> is a function returning \<open>42\<close>, which is
  never called.
\<close>

theorem get_reads_property_not_key:
  "(let (uid, h1) = get 0 (ParentAPI ''https://child.example'') ''x'';
        (request, target) = last (posted h1);
        c1 = child_listener
               (ChildAPI (plain_object r [(''x'', Plain (Direct (Cloneable (JNum 42))))]) 0
                  ''https://host.example'')
               (deliver ''https://host.example'' 0 request);
        (w, answer, back) = last (child_posted c1);
        h2 = parent_receive h1 (deliver ''https://child.example'' 1 answer)
    in (uid, js_get request ''key'', js_get request ''property'', js_get answer ''value'',
        resolved h2))
   = (1, JStr ''x'', JUndefined, JUndefined, [(1, JUndefined)])
   \<and> (let (uid, h1) = get 0 (ParentAPI ''https://child.example'') ''x'';
        (request, target) = last (posted h1);
        c1 = child_listener
               (ChildAPI
                  (plain_object r [(''x'', Callable (\<lambda>args. Inr (Direct (Cloneable (JNum 42)))))])
                  0 ''https://host.example'')
               (deliver ''https://host.example'' 0 request);
        (w, answer, back) = last (child_posted c1);
        h2 = parent_receive h1 (deliver ''https://child.example'' 1 answer)
    in (invoked c1, resolved h2))
   = ([], [(1, JUndefined)])"
  by (simp add: get_def generateNewMessageId_def ParentAPI_def child_defs
      parent_receive_def run_listener_def listener_def transact_def eval_defs Let_def)

text \<open>
  C6. A Call envelope carrying key \<open>k\<close> and data \<open>d\<close> is meant to invoke the model's
  function \<open>k\<close> with \<open>d\<close>. \<open>call\<close> sends the name in the field \<open>key\<close>; the child reads the
  field \<open>property\<close>, so the sanitized envelope of \<open>call("greet", "hi")\<close> invokes nothing on
  a model whose entry \<open>greet\<close> is a function (and, as intended, sends no reply).
\<close>

theorem call_reads_property_not_key:
  "(let h1 = call (ParentAPI ''https://child.example'') ''greet'' (JStr ''hi'');
        (request, target) = last (posted h1);
        c1 = child_listener
               (ChildAPI
                  (plain_object r [(''greet'', Callable (\<lambda>args. Inr (Direct (Cloneable JUndefined))))])
                  0 ''https://host.example'')
               (deliver ''https://host.example'' 0 request)
    in (sanitize (deliver ''https://host.example'' 0 request) (Some ''https://host.example''),
        js_get request ''key'', js_get request ''data'', invoked c1, child_posted c1))
   = (True, JStr ''greet'', JStr ''hi'', [], [])"
  by (simp add: call_def ParentAPI_def child_defs eval_defs Let_def)




text \<open>
  A request for a member of \<open>Object.prototype\<close> that throws when it is called without
  arguments, as \<open>__defineGetter__\<close> does, on a model that is an object literal: the
  exception escapes the listener and nothing is posted.
\<close>

lemma builtin_that_throws_unanswered:
  assumes "object_method r ''__defineGetter__'' [] = Inl TypeError"
    and "map_of props ''__defineGetter__'' = None"
  shows "child_listener (ChildAPI (plain_object r props) w po)
           (deliver po w
              (JObj [(''postmate'', JStr ''request''), (''type'', JStr messageType),
                     (''property'', JStr ''__defineGetter__''), (''uid'', JNum 1)]))
         = (ChildAPI (plain_object r props) w po)
             \<lparr>invoked := [(''__defineGetter__'', [])], uncaught := [TypeError]\<rparr>"
  using assms
  by (simp add: child_listener_def ChildAPI_def resolveValue_def resolveValue_calls_def
      lookup_plain_object object_prototype_methods_def eval_defs Let_def)




section \<open>Properties of the host's handshake\<close>

lemma run_snoc: "run s (evs @ [ev]) = step (run s evs) ev"
  by (simp add: run_def)

lemma run_append: "run s (evs @ rest) = run (run s evs) rest"
  by (simp add: run_def)

lemma run_Cons: "run s (ev # rest) = run (step s ev) rest"
  by (simp add: run_def)

lemma handshake_run_snoc: "handshake_run m target (evs @ [ev]) = step (handshake_run m target evs) ev"
  by (simp add: handshake_run_def run_snoc)

lemma handshake_run_append:
  "handshake_run m target (evs @ rest) = run (handshake_run m target evs) rest"
  by (simp add: handshake_run_def run_append)

lemma ticks_append: "ticks i (evs @ rest) = ticks i evs + ticks i rest"
  by (induction i evs rule: ticks.induct) simp_all

lemma no_load_append: "no_load (evs @ rest) = (no_load evs \<and> no_load rest)"
  by (induction evs rule: no_load.induct) simp_all

lemma no_valid_reply_append:
  "no_valid_reply target (evs @ rest) =
     (no_valid_reply target evs \<and> no_valid_reply target rest)"
  by (induction target evs rule: no_valid_reply.induct) simp_all

lemma no_sanitized_append:
  "no_sanitized target (evs @ rest) = (no_sanitized target evs \<and> no_sanitized target rest)"
  by (induction target evs rule: no_sanitized.induct) simp_all

lemma no_sanitized_no_valid_reply: "no_sanitized target evs \<Longrightarrow> no_valid_reply target evs"
  by (induction target evs rule: no_sanitized.induct) (simp_all add: valid_reply_def)

lemma doSend_sends:
  "attempt s < maxHandshakeRequests \<Longrightarrow>
   doSend s = s\<lparr>attempt := Suc (attempt s),
      handshakes := handshakes s @ [(clock s, handshake_envelope (this_model s), target_origin s)]\<rparr>"
  by (simp add: doSend_def handshake_envelope_def Let_def)

lemma doSend_timeout:
  "\<not> attempt s < maxHandshakeRequests \<Longrightarrow>
   doSend s = s\<lparr>attempt := Suc (attempt s),
      intervals := clearInterval (responseInterval s) (intervals s),
      settlements := settlements s @ [Reject ''Handshake Timeout Reached'']\<rparr>"
  by (simp add: doSend_def Let_def)

lemma reply_invalid:
  "\<not> valid_reply (target_origin s) e \<Longrightarrow>
   reply s e = (if sanitize e (Some (target_origin s))
                then s\<lparr>settlements := settlements s @ [Reject ''Failed handshake'']\<rparr> else s)"
  by (simp add: reply_def valid_reply_def)

lemma reply_valid:
  "valid_reply (target_origin s) e \<Longrightarrow>
   reply s e = s\<lparr>intervals := clearInterval (responseInterval s) (intervals s),
                 reply_on := False, this_childOrigin := Some (origin e),
                 settlements := settlements s @ [Resolve (ParentAPI (origin e))]\<rparr>"
  by (simp add: reply_def valid_reply_def)

lemma resolve_calls_simps [simp]:
  "resolve_calls [] = 0"
  "resolve_calls (xs @ [Resolve h]) = Suc (resolve_calls xs)"
  "resolve_calls (xs @ [Reject r]) = resolve_calls xs"
  by (simp_all add: resolve_calls_def)

lemma timeout_calls_simps [simp]:
  "timeout_calls [] = 0"
  "timeout_calls (xs @ [Reject ''Handshake Timeout Reached'']) = Suc (timeout_calls xs)"
  "timeout_calls (xs @ [Reject ''Failed handshake'']) = timeout_calls xs"
  "timeout_calls (xs @ [Resolve h]) = timeout_calls xs"
  by (simp_all add: timeout_calls_def)

text \<open>What \<open>doSend\<close> never touches.\<close>

lemma doSend_keeps:
  "target_origin (doSend s) = target_origin s"
  "this_model (doSend s) = this_model s"
  "reply_on (doSend s) = reply_on s"
  "this_childOrigin (doSend s) = this_childOrigin s"
  "resolve_calls (settlements (doSend s)) = resolve_calls (settlements s)"
  "responseInterval (doSend s) = responseInterval s"
  "interval_ids (doSend s) = interval_ids s"
  "clock (doSend s) = clock s"
  by (simp_all add: doSend_def Let_def)

lemma loaded_keeps:
  "target_origin (loaded s) = target_origin s"
  "this_model (loaded s) = this_model s"
  "reply_on (loaded s) = reply_on s"
  "this_childOrigin (loaded s) = this_childOrigin s"
  "resolve_calls (settlements (loaded s)) = resolve_calls (settlements s)"
  by (simp_all add: loaded_def Let_def doSend_keeps)

text \<open>As long as no valid reply has arrived, whatever else has happened.\<close>

lemma run_no_reply:
  assumes "no_valid_reply target evs"
  shows "target_origin (handshake_run m target evs) = target
       \<and> this_model (handshake_run m target evs) = m
       \<and> reply_on (handshake_run m target evs)
       \<and> this_childOrigin (handshake_run m target evs) = None
       \<and> resolve_calls (settlements (handshake_run m target evs)) = 0"
  using assms
proof (induction evs rule: rev_induct)
  case Nil
  show ?case by (simp add: handshake_run_def run_def sendHandshake_def)
next
  case (snoc ev evs)
  let ?s = "handshake_run m target evs"
  from snoc.prems have nv: "no_valid_reply target evs" and lst: "no_valid_reply target [ev]"
    by (simp_all add: no_valid_reply_append)
  note IH = snoc.IH [OF nv]
  show ?case
  proof (cases ev)
    case (Load t)
    with IH show ?thesis
      by (simp add: handshake_run_snoc loaded_keeps)
  next
    case (Tick i)
    with IH show ?thesis
      by (simp add: handshake_run_snoc doSend_keeps split: option.split)
  next
    case (Message e)
    with lst have "\<not> valid_reply (target_origin ?s) e" using IH by simp
    from reply_invalid [OF this] IH Message show ?thesis
      by (simp add: handshake_run_snoc)
  qed
qed

text \<open>Before the frame has loaded: nothing is sent and no timer runs.\<close>

lemma run_before_load:
  assumes "no_load pre" and "no_valid_reply target pre"
  shows "attempt (handshake_run m target pre) = 0
       \<and> intervals (handshake_run m target pre) = []
       \<and> responseInterval (handshake_run m target pre) = None
       \<and> interval_ids (handshake_run m target pre) = 0
       \<and> handshakes (handshake_run m target pre) = []
       \<and> timeout_calls (settlements (handshake_run m target pre)) = 0
       \<and> (no_sanitized target pre \<longrightarrow> settlements (handshake_run m target pre) = [])"
  using assms
proof (induction pre rule: rev_induct)
  case Nil
  show ?case by (simp add: handshake_run_def run_def sendHandshake_def)
next
  case (snoc ev pre)
  let ?s = "handshake_run m target pre"
  from snoc.prems have nl: "no_load pre" and nv: "no_valid_reply target pre"
    and l1: "no_load [ev]" and l2: "no_valid_reply target [ev]"
    by (simp_all add: no_load_append no_valid_reply_append)
  note IH = snoc.IH [OF nl nv]
  note inv = run_no_reply [OF nv, of m]
  show ?case
  proof (cases ev)
    case (Load t)
    with l1 show ?thesis by simp
  next
    case (Tick i)
    with IH show ?thesis
      by (simp add: handshake_run_snoc no_sanitized_append)
  next
    case (Message e)
    with l2 have "\<not> valid_reply (target_origin ?s) e" using inv by simp
    from reply_invalid [OF this] IH inv Message show ?thesis
      by (simp add: handshake_run_snoc no_sanitized_append)
  qed
qed

text \<open>
  After the frame's only load event, at time \<open>t\<close>, as long as no valid reply has arrived,
  by the number of firings of the interval timer.
\<close>

lemma run_single_load:
  assumes "no_load pre" and "no_load post" and "no_valid_reply target (pre @ post)"
  shows "attempt (handshake_run m target (pre @ Load t # post)) = min (ticks 0 post + 1) 6
       \<and> intervals (handshake_run m target (pre @ Load t # post)) =
           (if ticks 0 post < 5 then [(0, t + 500 * (ticks 0 post + 1))] else [])
       \<and> responseInterval (handshake_run m target (pre @ Load t # post)) = Some 0
       \<and> clock (handshake_run m target (pre @ Load t # post)) = t + 500 * min (ticks 0 post) 5
       \<and> handshakes (handshake_run m target (pre @ Load t # post)) =
           map (\<lambda>i. (t + 500 * i, handshake_envelope m, target)) [0..<min (ticks 0 post + 1) 5]
       \<and> timeout_calls (settlements (handshake_run m target (pre @ Load t # post))) =
           (if 5 \<le> ticks 0 post then 1 else 0)
       \<and> (no_sanitized target (pre @ post) \<longrightarrow>
            settlements (handshake_run m target (pre @ Load t # post)) =
              (if 5 \<le> ticks 0 post then [Reject ''Handshake Timeout Reached''] else []))"
  using assms(2,3)
proof (induction post rule: rev_induct)
  case Nil
  then have nv: "no_valid_reply target pre" by simp
  note before = run_before_load [OF assms(1) nv, of m]
  note inv = run_no_reply [OF nv, of m]
  have "handshake_run m target (pre @ [Load t]) = loaded (handshake_run m target pre\<lparr>clock := t\<rparr>)"
    by (simp add: handshake_run_snoc)
  moreover have "attempt (handshake_run m target pre\<lparr>clock := t\<rparr>) < maxHandshakeRequests"
    using before by (simp add: maxHandshakeRequests_def)
  ultimately show ?case
    using before inv doSend_sends [of "handshake_run m target pre\<lparr>clock := t\<rparr>"]
    by (simp add: loaded_def Let_def)
next
  case (snoc ev post)
  let ?s = "handshake_run m target (pre @ Load t # post)"
  from snoc.prems have nl: "no_load post" and nv: "no_valid_reply target (pre @ post)"
    and l1: "no_load [ev]" and l2: "no_valid_reply target [ev]"
    by (simp_all add: no_load_append no_valid_reply_append)
  note IH = snoc.IH [OF nl nv]
  have nv': "no_valid_reply target (pre @ Load t # post)"
    using nv by (simp add: no_valid_reply_append)
  note inv = run_no_reply [OF nv', of m]
  have nxt: "handshake_run m target (pre @ Load t # post @ [x]) = step ?s x" for x
    using handshake_run_snoc [of m target "pre @ Load t # post" x] by simp
  have san: "no_sanitized target (pre @ post @ [x]) =
      (no_sanitized target (pre @ post) \<and> no_sanitized target [x])" for x
    using no_sanitized_append [of target "pre @ post" "[x]"] by simp
  show ?case
  proof (cases ev)
    case (Load t')
    with l1 show ?thesis by simp
  next
    case (Tick j)
    show ?thesis
    proof (cases "j = 0")
      case False
      with IH Tick show ?thesis
        by (simp add: nxt ticks_append san)
    next
      case True
      consider "ticks 0 post < 4" | "ticks 0 post = 4" | "5 \<le> ticks 0 post" by linarith
      then show ?thesis
      proof cases
        case 1
        let ?u = "?s\<lparr>clock := t + 500 * (ticks 0 post + 1),
            intervals := [(0, t + 500 * (ticks 0 post + 1) + 500)]\<rparr>"
        have st: "step ?s (Tick 0) = doSend ?u"
          using IH 1 by simp
        have "attempt ?u < maxHandshakeRequests"
          using IH 1 by (simp add: maxHandshakeRequests_def)
        from doSend_sends [OF this] IH inv 1 Tick True show ?thesis
          by (simp add: nxt st ticks_append san min_def)
      next
        case 2
        let ?u = "?s\<lparr>clock := t + 500 * (ticks 0 post + 1),
            intervals := [(0, t + 500 * (ticks 0 post + 1) + 500)]\<rparr>"
        have st: "step ?s (Tick 0) = doSend ?u"
          using IH 2 by simp
        have "\<not> attempt ?u < maxHandshakeRequests"
          using IH 2 by (simp add: maxHandshakeRequests_def)
        from doSend_timeout [OF this] IH inv 2 Tick True show ?thesis
          by (simp add: nxt st ticks_append san clearInterval_def)
      next
        case 3
        with IH Tick True show ?thesis
          by (simp add: nxt ticks_append san)
      qed
    qed
  next
    case (Message e)
    with l2 have "\<not> valid_reply (target_origin ?s) e" using inv by simp
    from reply_invalid [OF this] IH inv Message show ?thesis
      by (simp add: nxt ticks_append san)
  qed
qed

text \<open>Once the attempts are used up nothing is sent any more, whatever happens.\<close>

lemma attempts_exhausted:
  assumes "maxHandshakeRequests \<le> attempt s"
  shows "handshakes (run s rest) = handshakes s \<and> maxHandshakeRequests \<le> attempt (run s rest)"
proof (induction rest rule: rev_induct)
  case Nil
  with assms show ?case by (simp add: run_def)
next
  case (snoc ev rest)
  let ?s = "run s rest"
  have ds: "handshakes (doSend u) = handshakes u \<and> maxHandshakeRequests \<le> attempt (doSend u)"
    if "maxHandshakeRequests \<le> attempt u" for u
    using that by (simp add: doSend_def Let_def)
  show ?case
  proof (cases ev)
    case (Load t)
    have "maxHandshakeRequests \<le> attempt (?s\<lparr>clock := t\<rparr>)" using snoc by simp
    from ds [OF this] snoc Load show ?thesis
      by (simp add: run_snoc loaded_def Let_def)
  next
    case (Tick i)
    show ?thesis
    proof (cases "map_of (intervals ?s) i")
      case None
      with snoc Tick show ?thesis by (simp add: run_snoc)
    next
      case (Some due)
      have "maxHandshakeRequests \<le>
          attempt (?s\<lparr>clock := due, intervals := AList.update i (due + 500) (intervals ?s)\<rparr>)"
        using snoc by simp
      from ds [OF this] snoc Tick Some show ?thesis
        by (simp add: run_snoc)
    qed
  next
    case (Message e)
    with snoc show ?thesis
      by (simp add: run_snoc reply_def)
  qed
qed

text \<open>With no timer running and no listener, only another load event changes the state.\<close>

lemma terminal_without_load:
  assumes "intervals s = []" and "\<not> reply_on s" and "no_load rest"
  shows "run s rest = s"
  using assms(3)
proof (induction rest rule: rev_induct)
  case Nil
  show ?case by (simp add: run_def)
next
  case (snoc ev rest)
  then have "no_load rest" and l: "no_load [ev]"
    by (simp_all add: no_load_append)
  with snoc.IH have "run s rest = s" by simp
  with assms l show ?case
    by (cases ev) (simp_all add: run_snoc)
qed

lemma settled_Pending: "(settled xs = Pending) = (xs = [])"
  by (cases xs rule: settled.cases) simp_all

lemmas run_defs = handshake_run_def run_def sendHandshake_def loaded_def reply_def doSend_def
  clearInterval_def maxHandshakeRequests_def Let_def

lemma no_timeout_before_fifth_firing:
  assumes "no_load pre" and "no_load post" and "no_valid_reply target (pre @ post)"
    and "ticks 0 post < 5"
  shows "timeout_calls (settlements (handshake_run m target (pre @ Load t # post))) = 0
       \<and> intervals (handshake_run m target (pre @ Load t # post)) =
           [(0, t + 500 * (ticks 0 post + 1))]
       \<and> length (handshakes (handshake_run m target (pre @ Load t # post))) = ticks 0 post + 1"
  using run_single_load [OF assms(1-3), of m t] assms(4) by (simp add: min_def)

lemma handshake_pending_when_quiet:
  assumes "no_load pre" and "no_load post" and "no_sanitized target (pre @ post)"
    and "ticks 0 post < 5"
  shows "settled (settlements (handshake_run m target (pre @ Load t # post))) = Pending"
  using run_single_load [OF assms(1,2) no_sanitized_no_valid_reply [OF assms(3)], of m t] assms(3,4)
  by simp

text \<open>
  C3, as amended. In every run in which the frame fires its load event once, at time
  \<open>t\<close>, and no valid HandshakeReply arrives, the initiator sends exactly five Handshake
  envelopes, all to the precomputed origin: one at the load and one at each of the first
  four firings of the interval timer, at \<open>t + 500\<close>, \<open>t + 1000\<close>, \<open>t + 1500\<close> and
  \<open>t + 2000\<close>. At the timer's fifth firing, at \<open>t + 2500\<close> (the sixth call of \<open>doSend\<close>),
  it clears the timer and calls \<open>reject\<close> with the timeout error, once; it never calls
  \<open>resolve\<close>, and whatever happens afterwards nothing more is sent. The session promise
  carries the timeout error when no envelope has passed the sanitizer in the run.
\<close>

theorem handshake_times_out:
  assumes "no_load pre" and "no_load post" and "no_valid_reply target (pre @ post)"
    and "5 \<le> ticks 0 post"
  shows "map fst (handshakes (handshake_run m target (pre @ Load t # post))) =
           [t, t + 500, t + 1000, t + 1500, t + 2000]
       \<and> map snd (handshakes (handshake_run m target (pre @ Load t # post))) =
           replicate 5 (handshake_envelope m, target)
       \<and> intervals (handshake_run m target (pre @ Load t # post)) = []
       \<and> clock (handshake_run m target (pre @ Load t # post)) = t + 2500
       \<and> timeout_calls (settlements (handshake_run m target (pre @ Load t # post))) = 1
       \<and> resolve_calls (settlements (handshake_run m target (pre @ Load t # post))) = 0
       \<and> (\<forall>rest. handshakes (run (handshake_run m target (pre @ Load t # post)) rest) =
                   handshakes (handshake_run m target (pre @ Load t # post)))
       \<and> (no_sanitized target (pre @ post) \<longrightarrow>
            settled (settlements (handshake_run m target (pre @ Load t # post))) =
              Rejected ''Handshake Timeout Reached'')"
proof -
  let ?H = "handshake_run m target (pre @ Load t # post)"
  note single = run_single_load [OF assms(1-3), of m t]
  have nv: "no_valid_reply target (pre @ Load t # post)"
    using assms(3) by (simp add: no_valid_reply_append)
  note inv = run_no_reply [OF nv, of m]
  have five: "[0..<5] = [0, 1, 2, 3, 4::nat]"
    by (simp add: upt_rec)
  have rep: "replicate 5 x = [x, x, x, x, x]" for x :: "jsval \<times> string"
    by (simp add: numeral_eq_Suc)
  from single assms(4) have hs: "handshakes ?H =
      map (\<lambda>i. (t + 500 * i, handshake_envelope m, target)) [0..<5]"
    by (simp add: min_def)
  have times: "map fst (handshakes ?H) = [t, t + 500, t + 1000, t + 1500, t + 2000]"
    unfolding hs five by simp
  have payloads: "map snd (handshakes ?H) = replicate 5 (handshake_envelope m, target)"
    unfolding hs five rep by simp
  from single assms(4) have off: "intervals ?H = []" and clk: "clock ?H = t + 2500"
    and calls: "timeout_calls (settlements ?H) = 1"
    by (simp_all add: min_def)
  from inv have none: "resolve_calls (settlements ?H) = 0"
    by simp
  from single assms(4) have "maxHandshakeRequests \<le> attempt ?H"
    by (simp add: min_def maxHandshakeRequests_def)
  from attempts_exhausted [OF this]
  have after: "\<forall>rest. handshakes (run ?H rest) = handshakes ?H"
    by simp
  from single assms(4) have quiet: "no_sanitized target (pre @ post) \<longrightarrow>
      settled (settlements ?H) = Rejected ''Handshake Timeout Reached''"
    by simp
  from times payloads off clk calls none after quiet show ?thesis
    by simp
qed

text \<open>
  Counterexample to C3 as stated, in two runs without a valid HandshakeReply. In the
  first an \<open>emit\<close> envelope from the child's origin arrives after the load: the promise is
  rejected with the failure error first, so it does not carry the timeout error. In the
  second the frame loads twice, at 0 and at 100: the five envelopes are not 500 units
  apart, the first timer is never cleared, and \<open>reject\<close> is called again when it fires.
\<close>

theorem handshake_times_out_counterexample:
  "no_valid_reply ''https://child.example''
     [Load 0,
      Message \<lparr>origin = ''https://child.example'', source = 1,
        data = JObj [(''postmate'', JStr ''emit''), (''type'', JStr messageType)]\<rparr>,
      Tick 0, Tick 0, Tick 0, Tick 0, Tick 0]
   \<and> settlements (handshake_run (JObj []) ''https://child.example''
     [Load 0,
      Message \<lparr>origin = ''https://child.example'', source = 1,
        data = JObj [(''postmate'', JStr ''emit''), (''type'', JStr messageType)]\<rparr>,
      Tick 0, Tick 0, Tick 0, Tick 0, Tick 0])
     = [Reject ''Failed handshake'', Reject ''Handshake Timeout Reached'']
   \<and> settled (settlements (handshake_run (JObj []) ''https://child.example''
     [Load 0,
      Message \<lparr>origin = ''https://child.example'', source = 1,
        data = JObj [(''postmate'', JStr ''emit''), (''type'', JStr messageType)]\<rparr>,
      Tick 0, Tick 0, Tick 0, Tick 0, Tick 0]))
     = Rejected ''Failed handshake''
   \<and> map fst (handshakes (handshake_run (JObj []) ''https://child.example''
     [Load 0, Load 100, Tick 0, Tick 1, Tick 0, Tick 1, Tick 0]))
     = [0, 100, 500, 600, 1000]
   \<and> intervals (handshake_run (JObj []) ''https://child.example''
     [Load 0, Load 100, Tick 0, Tick 1, Tick 0, Tick 1, Tick 0])
     = [(0, 2000)]
   \<and> timeout_calls (settlements (handshake_run (JObj []) ''https://child.example''
     [Load 0, Load 100, Tick 0, Tick 1, Tick 0, Tick 1, Tick 0]))
     = 2"
  by (simp add: run_defs valid_reply_def eval_defs timeout_calls_def)

text \<open>
  Witness for C3: noise before the load at time 40, then five firings of the timer with
  an envelope that fails the sanitizer in between.
\<close>

theorem handshake_times_out_witness:
  "no_load [Message \<lparr>origin = ''https://other.example'', source = 3, data = JStr ''early''\<rparr>]
   \<and> no_load
     [Tick 0, Message \<lparr>origin = ''https://other.example'', source = 3, data = JStr ''noise''\<rparr>,
      Tick 0, Tick 0, Tick 0, Tick 0]
   \<and> no_valid_reply ''https://child.example''
     ([Message \<lparr>origin = ''https://other.example'', source = 3, data = JStr ''early''\<rparr>] @
      [Tick 0, Message \<lparr>origin = ''https://other.example'', source = 3, data = JStr ''noise''\<rparr>,
       Tick 0, Tick 0, Tick 0, Tick 0])
   \<and> 5 \<le> ticks 0
     [Tick 0, Message \<lparr>origin = ''https://other.example'', source = 3, data = JStr ''noise''\<rparr>,
      Tick 0, Tick 0, Tick 0, Tick 0]
   \<and> no_sanitized ''https://child.example''
     ([Message \<lparr>origin = ''https://other.example'', source = 3, data = JStr ''early''\<rparr>] @
      [Tick 0, Message \<lparr>origin = ''https://other.example'', source = 3, data = JStr ''noise''\<rparr>,
       Tick 0, Tick 0, Tick 0, Tick 0])
   \<and> map fst (handshakes (handshake_run (JObj []) ''https://child.example''
     ([Message \<lparr>origin = ''https://other.example'', source = 3, data = JStr ''early''\<rparr>] @
      Load 40 #
      [Tick 0, Message \<lparr>origin = ''https://other.example'', source = 3, data = JStr ''noise''\<rparr>,
       Tick 0, Tick 0, Tick 0, Tick 0]))) = [40, 540, 1040, 1540, 2040]
   \<and> intervals (handshake_run (JObj []) ''https://child.example''
     ([Message \<lparr>origin = ''https://other.example'', source = 3, data = JStr ''early''\<rparr>] @
      Load 40 #
      [Tick 0, Message \<lparr>origin = ''https://other.example'', source = 3, data = JStr ''noise''\<rparr>,
       Tick 0, Tick 0, Tick 0, Tick 0])) = []
   \<and> clock (handshake_run (JObj []) ''https://child.example''
     ([Message \<lparr>origin = ''https://other.example'', source = 3, data = JStr ''early''\<rparr>] @
      Load 40 #
      [Tick 0, Message \<lparr>origin = ''https://other.example'', source = 3, data = JStr ''noise''\<rparr>,
       Tick 0, Tick 0, Tick 0, Tick 0])) = 2540
   \<and> settled (settlements (handshake_run (JObj []) ''https://child.example''
     ([Message \<lparr>origin = ''https://other.example'', source = 3, data = JStr ''early''\<rparr>] @
      Load 40 #
      [Tick 0, Message \<lparr>origin = ''https://other.example'', source = 3, data = JStr ''noise''\<rparr>,
       Tick 0, Tick 0, Tick 0, Tick 0]))) = Rejected ''Handshake Timeout Reached''"
  using handshake_times_out
    [of "[Message \<lparr>origin = ''https://other.example'', source = 3, data = JStr ''early''\<rparr>]"
        "[Tick 0, Message \<lparr>origin = ''https://other.example'', source = 3, data = JStr ''noise''\<rparr>,
          Tick 0, Tick 0, Tick 0, Tick 0]"
        "''https://child.example''" "JObj []" 40]
  by (simp add: valid_reply_def sanitize_def)

text \<open>
  C4, as amended. In every run in which the frame fires its load event once and the
  first valid HandshakeReply (an envelope of kind \<open>handshake-reply\<close> that passes the
  sanitizer against the precomputed origin) arrives after attempt \<open>k\<close> with \<open>k \<le> 5\<close>,
  the initiator clears the timer, removes the listener, stores the envelope's origin as
  the trusted child origin and calls \<open>resolve\<close> with a host handle for that origin,
  once. That origin is the precomputed one: the sanitizer has compared the two. Exactly
  \<open>k\<close> envelopes have been sent, and as long as the frame does not load again no later
  event changes the state. The session promise carries the handle when no envelope had
  passed the sanitizer before.
\<close>

theorem handshake_success:
  assumes "no_load pre" and "no_load post" and "no_valid_reply target (pre @ post)"
    and "ticks 0 post < 5" and "valid_reply target e"
  shows "origin e = target
       \<and> this_childOrigin (handshake_run m target (pre @ Load t # post @ [Message e])) =
           Some (origin e)
       \<and> intervals (handshake_run m target (pre @ Load t # post @ [Message e])) = []
       \<and> \<not> reply_on (handshake_run m target (pre @ Load t # post @ [Message e]))
       \<and> last (settlements (handshake_run m target (pre @ Load t # post @ [Message e]))) =
           Resolve (ParentAPI (origin e))
       \<and> resolve_calls (settlements (handshake_run m target (pre @ Load t # post @ [Message e])))
           = 1
       \<and> length (handshakes (handshake_run m target (pre @ Load t # post @ [Message e]))) =
           ticks 0 post + 1
       \<and> (\<forall>rest. no_load rest \<longrightarrow>
            run (handshake_run m target (pre @ Load t # post @ [Message e])) rest =
              handshake_run m target (pre @ Load t # post @ [Message e]))
       \<and> (no_sanitized target (pre @ post) \<longrightarrow>
            settled (settlements (handshake_run m target (pre @ Load t # post @ [Message e]))) =
              Fulfilled (ParentAPI target))"
proof -
  let ?s = "handshake_run m target (pre @ Load t # post)"
  let ?s' = "handshake_run m target (pre @ Load t # post @ [Message e])"
  note single = run_single_load [OF assms(1-3), of m t]
  have nv: "no_valid_reply target (pre @ Load t # post)"
    using assms(3) by (simp add: no_valid_reply_append)
  note inv = run_no_reply [OF nv, of m]
  from inv have tgt: "target_origin ?s = target" and listening: "reply_on ?s"
    by simp_all
  from assms(5) have "valid_reply (target_origin ?s) e"
    by (simp add: tgt)
  from reply_valid [OF this] listening
  have s': "?s' = ?s\<lparr>intervals := clearInterval (responseInterval ?s) (intervals ?s),
                 reply_on := False, this_childOrigin := Some (origin e),
                 settlements := settlements ?s @ [Resolve (ParentAPI (origin e))]\<rparr>"
    using handshake_run_snoc [of m target "pre @ Load t # post" "Message e"] by simp
  have o: "origin e = target"
    using assms(5) by (simp add: valid_reply_def sanitize_origin)
  have off: "intervals ?s' = []" "\<not> reply_on ?s'"
    using single assms(4) by (simp_all add: s' clearInterval_def)
  have len: "length (handshakes ?s') = ticks 0 post + 1"
    using single assms(4) by (simp add: s' min_def)
  have rc: "resolve_calls (settlements ?s') = 1"
    using inv by (simp add: s')
  have fin: "\<forall>rest. no_load rest \<longrightarrow> run ?s' rest = ?s'"
    using terminal_without_load [OF off] by simp
  have pin: "this_childOrigin ?s' = Some (origin e)"
    and lst: "last (settlements ?s') = Resolve (ParentAPI (origin e))"
    by (simp_all add: s')
  have quiet: "no_sanitized target (pre @ post) \<longrightarrow>
      settled (settlements ?s') = Fulfilled (ParentAPI target)"
    using single assms(4) by (simp add: s' o)
  from o pin off lst rc len fin quiet show ?thesis by simp
qed

text \<open>
  Counterexample to C4 as stated. A well-formed HandshakeReply whose origin differs
  from the precomputed one is dropped: nothing is pinned, nothing resolved, the timer runs
  on. When an \<open>emit\<close> envelope from the child's origin has arrived first, the valid
  reply's call to \<open>resolve\<close> comes after the call to \<open>reject\<close>: the promise carries the
  failure error. And when the frame loads again after the valid reply, \<open>loaded\<close> sends
  another envelope and starts a new timer.
\<close>

theorem handshake_success_counterexample:
  "sanitize \<lparr>origin = ''https://cdn.example'', source = 1,
        data = JObj [(''postmate'', JStr ''handshake-reply''), (''type'', JStr messageType)]\<rparr>
      (Some ''https://cdn.example'')
   \<and> this_childOrigin (handshake_run (JObj []) ''https://child.example''
        [Load 0, Message \<lparr>origin = ''https://cdn.example'', source = 1,
           data = JObj [(''postmate'', JStr ''handshake-reply''), (''type'', JStr messageType)]\<rparr>])
       = None
   \<and> settlements (handshake_run (JObj []) ''https://child.example''
        [Load 0, Message \<lparr>origin = ''https://cdn.example'', source = 1,
           data = JObj [(''postmate'', JStr ''handshake-reply''), (''type'', JStr messageType)]\<rparr>])
       = []
   \<and> intervals (handshake_run (JObj []) ''https://child.example''
        [Load 0, Message \<lparr>origin = ''https://cdn.example'', source = 1,
           data = JObj [(''postmate'', JStr ''handshake-reply''), (''type'', JStr messageType)]\<rparr>])
       = [(0, 500)]
   \<and> settled (settlements (handshake_run (JObj []) ''https://child.example''
        [Load 0,
         Message \<lparr>origin = ''https://child.example'', source = 1,
           data = JObj [(''postmate'', JStr ''emit''), (''type'', JStr messageType)]\<rparr>,
         Message \<lparr>origin = ''https://child.example'', source = 1,
           data = JObj [(''postmate'', JStr ''handshake-reply''), (''type'', JStr messageType)]\<rparr>]))
       = Rejected ''Failed handshake''
   \<and> map fst (handshakes (handshake_run (JObj []) ''https://child.example''
        [Load 0,
         Message \<lparr>origin = ''https://child.example'', source = 1,
           data = JObj [(''postmate'', JStr ''handshake-reply''), (''type'', JStr messageType)]\<rparr>,
         Load 900]))
       = [0, 900]
   \<and> intervals (handshake_run (JObj []) ''https://child.example''
        [Load 0,
         Message \<lparr>origin = ''https://child.example'', source = 1,
           data = JObj [(''postmate'', JStr ''handshake-reply''), (''type'', JStr messageType)]\<rparr>,
         Load 900])
       = [(1, 1400)]"
  by (simp add: run_defs eval_defs)

text \<open>
  Witness for C4: the reply arrives after the third attempt; a firing of the cleared
  timer and a further envelope change nothing afterwards.
\<close>

theorem handshake_success_witness:
  "no_load [] \<and> no_load [Tick 0, Tick 0]
   \<and> no_valid_reply ''https://child.example'' [Tick 0, Tick 0]
   \<and> ticks 0 [Tick 0, Tick 0] < 5
   \<and> no_sanitized ''https://child.example'' [Tick 0, Tick 0]
   \<and> no_load [Tick 0, Message \<lparr>origin = ''https://child.example'', source = 1,
         data = JObj [(''postmate'', JStr ''emit''), (''type'', JStr messageType)]\<rparr>]
   \<and> valid_reply ''https://child.example''
        \<lparr>origin = ''https://child.example'', source = 1,
         data = JObj [(''postmate'', JStr ''handshake-reply''), (''type'', JStr messageType)]\<rparr>
   \<and> this_childOrigin (handshake_run (JObj []) ''https://child.example''
        [Load 0, Tick 0, Tick 0, Message \<lparr>origin = ''https://child.example'', source = 1,
           data = JObj [(''postmate'', JStr ''handshake-reply''), (''type'', JStr messageType)]\<rparr>])
       = Some ''https://child.example''
   \<and> intervals (handshake_run (JObj []) ''https://child.example''
        [Load 0, Tick 0, Tick 0, Message \<lparr>origin = ''https://child.example'', source = 1,
           data = JObj [(''postmate'', JStr ''handshake-reply''), (''type'', JStr messageType)]\<rparr>])
       = []
   \<and> resolve_calls (settlements (handshake_run (JObj []) ''https://child.example''
        [Load 0, Tick 0, Tick 0, Message \<lparr>origin = ''https://child.example'', source = 1,
           data = JObj [(''postmate'', JStr ''handshake-reply''), (''type'', JStr messageType)]\<rparr>]))
       = 1
   \<and> length (handshakes (handshake_run (JObj []) ''https://child.example''
        [Load 0, Tick 0, Tick 0, Message \<lparr>origin = ''https://child.example'', source = 1,
           data = JObj [(''postmate'', JStr ''handshake-reply''), (''type'', JStr messageType)]\<rparr>]))
       = 3
   \<and> run (handshake_run (JObj []) ''https://child.example''
        [Load 0, Tick 0, Tick 0, Message \<lparr>origin = ''https://child.example'', source = 1,
           data = JObj [(''postmate'', JStr ''handshake-reply''), (''type'', JStr messageType)]\<rparr>])
        [Tick 0, Message \<lparr>origin = ''https://child.example'', source = 1,
           data = JObj [(''postmate'', JStr ''emit''), (''type'', JStr messageType)]\<rparr>]
       = handshake_run (JObj []) ''https://child.example''
        [Load 0, Tick 0, Tick 0, Message \<lparr>origin = ''https://child.example'', source = 1,
           data = JObj [(''postmate'', JStr ''handshake-reply''), (''type'', JStr messageType)]\<rparr>]
   \<and> settled (settlements (handshake_run (JObj []) ''https://child.example''
        [Load 0, Tick 0, Tick 0, Message \<lparr>origin = ''https://child.example'', source = 1,
           data = JObj [(''postmate'', JStr ''handshake-reply''), (''type'', JStr messageType)]\<rparr>]))
       = Fulfilled (ParentAPI ''https://child.example'')"
  using handshake_success
    [of "[]" "[Tick 0, Tick 0]" "''https://child.example''"
        "\<lparr>origin = ''https://child.example'', source = 1,
         data = JObj [(''postmate'', JStr ''handshake-reply''), (''type'', JStr messageType)]\<rparr>"
        "JObj []" 0]
  by (simp add: valid_reply_def eval_defs)

text \<open>
  C7, as amended. While the handshake waits for its reply, an envelope that fails the
  sanitizer against the precomputed origin (a foreign origin, or a malformed payload) is
  dropped: the state, and so the promise, is as before. An envelope that passes the
  sanitizer but is not a HandshakeReply makes the initiator call \<open>reject\<close> with the
  failure error and changes nothing else (the timers and the listener stay); the promise
  then carries that error when it was still pending.
\<close>

theorem handshake_failure:
  assumes "no_valid_reply target evs"
  shows "(\<not> sanitize e (Some target) \<longrightarrow>
            handshake_run m target (evs @ [Message e]) = handshake_run m target evs)
       \<and> (sanitize e (Some target) \<and> js_get (data e) ''postmate'' \<noteq> JStr ''handshake-reply'' \<longrightarrow>
            handshake_run m target (evs @ [Message e]) =
              (handshake_run m target evs)
                \<lparr>settlements := settlements (handshake_run m target evs) @
                   [Reject ''Failed handshake'']\<rparr>)
       \<and> (sanitize e (Some target) \<and> js_get (data e) ''postmate'' \<noteq> JStr ''handshake-reply''
            \<and> settled (settlements (handshake_run m target evs)) = Pending \<longrightarrow>
            settled (settlements (handshake_run m target (evs @ [Message e]))) =
              Rejected ''Failed handshake'')"
proof -
  note inv = run_no_reply [OF assms, of m]
  from inv have tgt: "target_origin (handshake_run m target evs) = target"
    and listening: "reply_on (handshake_run m target evs)"
    by simp_all
  have nxt: "handshake_run m target (evs @ [Message e]) = reply (handshake_run m target evs) e"
    using listening by (simp add: handshake_run_snoc)
  have dropped: "\<not> sanitize e (Some target) \<longrightarrow>
      handshake_run m target (evs @ [Message e]) = handshake_run m target evs"
    by (simp add: nxt reply_def tgt)
  have failed: "sanitize e (Some target) \<and> js_get (data e) ''postmate'' \<noteq> JStr ''handshake-reply'' \<longrightarrow>
      handshake_run m target (evs @ [Message e]) =
        (handshake_run m target evs)
          \<lparr>settlements := settlements (handshake_run m target evs) @ [Reject ''Failed handshake'']\<rparr>"
    by (simp add: nxt reply_def tgt)
  have carried: "sanitize e (Some target) \<and> js_get (data e) ''postmate'' \<noteq> JStr ''handshake-reply''
      \<and> settled (settlements (handshake_run m target evs)) = Pending \<longrightarrow>
      settled (settlements (handshake_run m target (evs @ [Message e]))) =
        Rejected ''Failed handshake''"
    by (simp add: nxt reply_def tgt settled_Pending)
  from dropped failed carried show ?thesis by simp
qed

text \<open>
  Counterexample to C7 as stated: a reply from the child's origin without the type
  marker is malformed, fails the sanitizer, and is dropped; the promise stays pending.
\<close>

theorem handshake_failure_counterexample:
  "\<not> sanitize \<lparr>origin = ''https://child.example'', source = 1,
          data = JObj [(''postmate'', JStr ''handshake-reply'')]\<rparr>
        (Some ''https://child.example'')
   \<and> settlements (handshake_run (JObj []) ''https://child.example''
        [Load 0, Message \<lparr>origin = ''https://child.example'', source = 1,
           data = JObj [(''postmate'', JStr ''handshake-reply'')]\<rparr>]) = []
   \<and> settled (settlements (handshake_run (JObj []) ''https://child.example''
        [Load 0, Message \<lparr>origin = ''https://child.example'', source = 1,
           data = JObj [(''postmate'', JStr ''handshake-reply'')]\<rparr>])) = Pending"
  by (simp add: run_defs eval_defs)

text \<open>
  Witness for C7: after the second attempt, noise from a foreign origin is dropped, and
  an \<open>emit\<close> envelope from the child's origin fails the session.
\<close>

theorem handshake_failure_witness:
  "no_valid_reply ''https://child.example'' [Load 0, Tick 0]
   \<and> settled (settlements (handshake_run (JObj []) ''https://child.example'' [Load 0, Tick 0]))
       = Pending
   \<and> \<not> sanitize \<lparr>origin = ''https://other.example'', source = 3, data = JStr ''noise''\<rparr>
         (Some ''https://child.example'')
   \<and> handshake_run (JObj []) ''https://child.example''
        ([Load 0, Tick 0] @
         [Message \<lparr>origin = ''https://other.example'', source = 3, data = JStr ''noise''\<rparr>])
       = handshake_run (JObj []) ''https://child.example'' [Load 0, Tick 0]
   \<and> sanitize \<lparr>origin = ''https://child.example'', source = 1,
          data = JObj [(''postmate'', JStr ''emit''), (''type'', JStr messageType)]\<rparr>
         (Some ''https://child.example'')
   \<and> js_get (JObj [(''postmate'', JStr ''emit''), (''type'', JStr messageType)]) ''postmate''
       \<noteq> JStr ''handshake-reply''
   \<and> settled (settlements (handshake_run (JObj []) ''https://child.example''
        ([Load 0, Tick 0] @
         [Message \<lparr>origin = ''https://child.example'', source = 1,
           data = JObj [(''postmate'', JStr ''emit''), (''type'', JStr messageType)]\<rparr>])))
       = Rejected ''Failed handshake''"
proof -
  have p: "settled (settlements (handshake_run (JObj []) ''https://child.example''
      [Load 0, Tick 0])) = Pending"
    using handshake_pending_when_quiet [of "[]" "[Tick 0]" "''https://child.example''" "JObj []" 0]
    by simp
  from p handshake_failure
    [of "''https://child.example''" "[Load 0, Tick 0]"
        "\<lparr>origin = ''https://other.example'', source = 3, data = JStr ''noise''\<rparr>" "JObj []",
      THEN conjunct1]
    handshake_failure
    [of "''https://child.example''" "[Load 0, Tick 0]"
        "\<lparr>origin = ''https://child.example'', source = 1,
          data = JObj [(''postmate'', JStr ''emit''), (''type'', JStr messageType)]\<rparr>" "JObj []",
      THEN conjunct2, THEN conjunct2]
  show ?thesis
    by (simp add: eval_defs)
qed

section \<open>Properties of the child's handshake\<close>

lemma js_get_JStr_not_nullish: "js_get v k = JStr s \<Longrightarrow> \<not> nullish v"
  by (cases v) simp_all

lemma assign_ordinary:
  assumes "\<And>p. map_of (inherited m) key \<noteq> Some (ProtoAccessor p)"
  shows "assign r m key v = m\<lparr>own := AList.update key (Plain (Direct (Cloneable v))) (own m)\<rparr>"
  using assms
  by (simp add: assign_def split: option.split entry.split)

lemma foldl_assign_ordinary:
  assumes "\<And>k p. k \<in> fst ` set xs \<Longrightarrow> map_of (inherited m) k \<noteq> Some (ProtoAccessor p)"
  shows "foldl (\<lambda>acc kv. assign r acc (fst kv) (snd kv)) m xs =
           m\<lparr>own := foldl (\<lambda>acc kv. AList.update (fst kv) (Plain (Direct (Cloneable (snd kv)))) acc)
                      (own m) xs\<rparr>"
  using assms
proof (induction xs rule: rev_induct)
  case Nil
  show ?case by simp
next
  case (snoc x xs)
  then have IH: "foldl (\<lambda>acc kv. assign r acc (fst kv) (snd kv)) m xs =
      m\<lparr>own := foldl (\<lambda>acc kv. AList.update (fst kv) (Plain (Direct (Cloneable (snd kv)))) acc)
                 (own m) xs\<rparr>"
    by simp
  have "\<And>p. map_of (inherited m) (fst x) \<noteq> Some (ProtoAccessor p)"
    using snoc.prems by simp
  then show ?case
    by (simp add: IH assign_ordinary)
qed

lemma foldl_update_map_of:
  "map_of (foldl (\<lambda>acc kv. AList.update (fst kv) (f (snd kv)) acc) m xs) k =
     (case map_of (rev xs) k of Some v \<Rightarrow> Some (f v) | None \<Rightarrow> map_of m k)"
  by (induction xs rule: rev_induct) (simp_all add: update_conv')

lemma map_of_own_entries:
  "map_of (rev (own_entries (JObj kvs))) k = map_of kvs k"
proof -
  have "map_of (rev (own_entries (JObj kvs))) k =
        map_of (map (\<lambda>k. (k, js_get (JObj kvs) k)) (rev (remdups (map fst kvs)))) k"
    by (simp add: rev_map)
  also have "\<dots> = (if k \<in> set (map fst kvs) then Some (js_get (JObj kvs) k) else None)"
    by (simp add: map_of_map_restrict restrict_map_def)
  also have "\<dots> = map_of kvs k"
    by (cases "map_of kvs k")
      (auto simp: map_of_eq_None_iff [symmetric] simp del: map_of_eq_None_iff)
  finally show ?thesis .
qed

lemma keys_own_entries: "fst ` set (own_entries (JObj kvs)) = fst ` set kvs"
  by (force simp: image_iff)

text \<open>
  The merge for defaults none of whose keys reaches the accessor: every key of the
  defaults names the host's value afterwards, every other key what it named before, and
  the prototype chain is as it was.
\<close>

lemma extend_model_ordinary:
  assumes "\<And>k p. k \<in> fst ` set kvs \<Longrightarrow> map_of (inherited m) k \<noteq> Some (ProtoAccessor p)"
  shows "inherited (extend_model r m (JObj kvs)) = inherited m"
    and "map_of (own (extend_model r m (JObj kvs))) k =
           (case map_of kvs k of
              Some v \<Rightarrow> Some (Plain (Direct (Cloneable v)))
            | None \<Rightarrow> map_of (own m) k)"
proof -
  have "\<And>k p. k \<in> fst ` set (own_entries (JObj kvs)) \<Longrightarrow>
      map_of (inherited m) k \<noteq> Some (ProtoAccessor p)"
    using assms unfolding keys_own_entries by blast
  from foldl_assign_ordinary [of "own_entries (JObj kvs)" m r, OF this]
  have e: "extend_model r m (JObj kvs) =
      m\<lparr>own := foldl (\<lambda>acc kv. AList.update (fst kv) ((\<lambda>v. Plain (Direct (Cloneable v))) (snd kv)) acc)
                 (own m) (own_entries (JObj kvs))\<rparr>"
    by (simp add: extend_model_def del: own_entries.simps)
  show "inherited (extend_model r m (JObj kvs)) = inherited m"
    by (simp add: e del: own_entries.simps)
  have "map_of (own (extend_model r m (JObj kvs))) k =
      (case map_of (rev (own_entries (JObj kvs))) k of
         Some v \<Rightarrow> Some (Plain (Direct (Cloneable v)))
       | None \<Rightarrow> map_of (own m) k)"
    unfolding e
    using foldl_update_map_of
      [of "\<lambda>v. Plain (Direct (Cloneable v))" "own m" "own_entries (JObj kvs)" k]
    by (simp del: own_entries.simps)
  then show "map_of (own (extend_model r m (JObj kvs))) k =
      (case map_of kvs k of
         Some v \<Rightarrow> Some (Plain (Direct (Cloneable v)))
       | None \<Rightarrow> map_of (own m) k)"
    by (simp only: map_of_own_entries)
qed

lemma plain_object_accessor:
  "(map_of (inherited (plain_object r props)) k = Some (ProtoAccessor p)) =
     (k = ''__proto__'' \<and> p = Direct (Cloneable (JObj [])))"
  by (auto simp: plain_object_def object_chain_def map_of_methods)

lemma handshake_merge_example:
  "this_entries (model_receive
     (sendHandshakeReply r
       (plain_object r
          [(''greeting'', Plain (Direct (Cloneable (JStr ''hello'')))),
           (''count'', Plain (Direct (Cloneable (JNum 1))))]) 0)
     (deliver ''https://host.example'' 0
       (handshake_envelope (JObj [(''greeting'', JStr ''hi'')]))))
   = plain_object r
       [(''greeting'', Plain (Direct (Cloneable (JStr ''hi'')))),
        (''count'', Plain (Direct (Cloneable (JNum 1))))]"
  by (simp add: sendHandshakeReply_def deliver_def handshake_envelope_def model_receive_def
      run_listener_def shake_def extend_model_def assign_def plain_object_def Let_def)

text \<open>
  C8. Every key of the host's defaults is meant to name the host's value in the child's
  model after the handshake, and every other key what it named before. For the key
  \<open>__proto__\<close> the assignment \<open>this.model[key] = defaults[key]\<close> runs the setter of
  \<open>Object.prototype\<close> instead: with the defaults \<open>{"__proto__": {"x": 1}}\<close> the model
  \<open>{count: 1}\<close> gets no entry \<open>__proto__\<close>, and its key \<open>x\<close>, which the defaults do not
  have and which named nothing before, now names \<open>1\<close>.
\<close>

theorem handshake_proto_key_replaces_prototype:
  "lookup (plain_object r [(''count'', Plain (Direct (Cloneable (JNum 1))))]) ''x'' = None
   \<and> own (this_entries (model_receive
        (sendHandshakeReply r
           (plain_object r [(''count'', Plain (Direct (Cloneable (JNum 1))))]) 0)
        (deliver ''https://host.example'' 0
           (handshake_envelope (JObj [(''__proto__'', JObj [(''x'', JNum 1)])])))))
     = [(''count'', Plain (Direct (Cloneable (JNum 1))))]
   \<and> lookup (this_entries (model_receive
        (sendHandshakeReply r
           (plain_object r [(''count'', Plain (Direct (Cloneable (JNum 1))))]) 0)
        (deliver ''https://host.example'' 0
           (handshake_envelope (JObj [(''__proto__'', JObj [(''x'', JNum 1)])]))))) ''x''
     = Some (Plain (Direct (Cloneable (JNum 1))))"
  by (simp add: sendHandshakeReply_def deliver_def handshake_envelope_def model_receive_def
      run_listener_def shake_def extend_model_def assign_def plain_object_def Let_def
      lookup_def object_chain_def plain_entries_def map_of_methods
      object_prototype_methods_def object_prototype_keys_def)

end
